theory Spec2Isabelle
  imports Complex_Main "HOL-Library.Char_ord" "HOL-Library.List_Lexorder"
begin

section \<open>Door hardware placement: data model\<close>

text \<open>
  The placement algorithms of the door configurator (hinges, locks, handles, inactive-leaf
  bolts, conflict detection) are embedded as HOL functions.  A JavaScript \<open>number\<close>
  that carries a length or an angle is a \<^typ>\<open>real\<close>; a count or an index is an
  \<^typ>\<open>int\<close> or a \<^typ>\<open>nat\<close>.  The hinge heights of \<open>calculateHingeYPositions\<close> are
  computed with every operation rounded as binary64 arithmetic rounds it, because the
  spacing and the order of the heights depend on that rounding; the other functions add or
  subtract a constant once, and their theorems state which expression is evaluated.  A string
  union is a datatype, an interface is a record, an optional property is an
  \<^typ>\<open>'a option\<close>, and a thrown \<open>Error\<close> is the left injection of a sum.
  Record fields whose source name is shared by several interfaces carry a short prefix.
\<close>

datatype HingeType = Butt | Concealed | Piano
datatype Side = Left | Right
datatype DistributionMode = Even | Weighted

record Vector3 =
  vx :: real
  vy :: real
  vz :: real

record Euler =
  rot_x :: real
  rot_y :: real
  rot_z :: real
  rot_order :: string

record PlacementRules =
  topOffset :: "real option"
  bottomOffset :: "real option"
  distributionMode :: "DistributionMode option"

record HingePlacementInput =
  doorHeight :: real
  doorWidth :: real
  leafThickness :: real
  hingeCount :: int
  hingeType :: HingeType
  hingeSide :: Side
  placementRules :: "PlacementRules option"

record ButtHingeParams =
  plateWidth :: real
  plateHeight :: real
  barrelDiameter :: real

record ConcealedHingeParams =
  cupDiameter :: real
  cupDepth :: real
  armLength :: real

record PianoHingeParams =
  piano_width :: real
  fullHeight :: bool

text \<open>
  The metadata of a hinge placement.  Every property is optional here because the two
  places that build a placement set different properties: an absent property
  (\<open>undefined\<close> in the source) is \<^const>\<open>None\<close>.
\<close>

record HingeMetadata =
  m_index :: "nat option"
  m_type :: "string option"
  m_side :: "Side option"
  m_yPosition :: "real option"
  m_isPiano :: "bool option"
  m_length :: "real option"

record HingePlacement =
  hp_id :: "string option"
  hp_position :: Vector3
  hp_rotation :: Euler
  hp_metadata :: HingeMetadata

datatype 'e ValidationResult = Valid | Invalid 'e

text \<open>
  The failures of the hinge calculator, named after the messages of the source:
  \<open>Door requires minimum N hinges (height: H mm, weight: W kg)\<close> and
  \<open>Minimum 2 hinges required\<close>.
\<close>

datatype HingeError =
  MinimumHingeCountViolation int real real
  | MinimumTwoHingesRequired

text \<open>
  The failures of \<open>validateOffsets\<close>: \<open>Top offset must be >= 100mm\<close>,
  \<open>Bottom offset must be >= 100mm\<close> and
  \<open>Insufficient space for N hinges with current offsets\<close>.
\<close>

datatype OffsetError =
  TopOffsetTooSmall
  | BottomOffsetTooSmall
  | InsufficientSpace int

section \<open>Binary64 rounding\<close>

text \<open>
  \<open>fl x\<close> is the binary64 number nearest to \<open>x\<close>, ties going to the even significand:
  \<open>x\<close> is scaled by its unit in the last place, \<open>2\<close> to the power \<open>binade x - 52\<close>, and
  rounded to an integer.  The exponent is unbounded: \<open>fl\<close> is the rounding of the hardware
  for results in the normal range (magnitude from \<open>2^-1022\<close> up to the largest double), and
  does not model overflow to infinity, subnormal numbers or \<open>NaN\<close>.
\<close>

definition rne :: "real \<Rightarrow> int" where
  "rne x =
     (let f = \<lfloor>x\<rfloor>; d = x - of_int f in
      if d < 1 / 2 then f
      else if 1 / 2 < d then f + 1
      else if even f then f else f + 1)"

definition binade :: "real \<Rightarrow> int" where
  "binade x = \<lfloor>log 2 \<bar>x\<bar>\<rfloor>"

definition p2 :: "int \<Rightarrow> real" where
  "p2 k = 2 powr of_int k"

definition ulp :: "real \<Rightarrow> real" where
  "ulp x = p2 (binade x - 52)"

definition fl :: "real \<Rightarrow> real" where
  "fl x = (if x = 0 then 0 else sgn x * (of_int (rne (\<bar>x\<bar> / ulp x)) * ulp x))"

text \<open>
  A length the code can receive without leaving the range where \<open>fl\<close> is the hardware's
  rounding in every operation of \<open>calculateHingeYPositions\<close>: a binary64 number that is 0
  or has a magnitude between \<open>2^-500\<close> and \<open>2^500\<close>.
\<close>

definition binary64_length :: "real \<Rightarrow> bool" where
  "binary64_length x \<longleftrightarrow> fl x = x \<and> (x = 0 \<or> (p2 (- 500) \<le> \<bar>x\<bar> \<and> \<bar>x\<bar> \<le> p2 500))"


section \<open>Hinge placement\<close>

definition hingeTypeName :: "HingeType \<Rightarrow> string" where
  "hingeTypeName t = (case t of Butt \<Rightarrow> ''butt'' | Concealed \<Rightarrow> ''concealed'' | Piano \<Rightarrow> ''piano'')"

definition getHingeXPosition :: "Side \<Rightarrow> real \<Rightarrow> real" where
  "getHingeXPosition hingeSide' doorWidth' =
     (if hingeSide' = Left then 0 else doorWidth')"

text \<open>\<open>positions.splice(i, 0, v)\<close>: insert \<open>v\<close> before index \<open>i\<close> (at the end when
  \<open>i\<close> is beyond the list).\<close>

definition splice_insert :: "nat \<Rightarrow> 'a \<Rightarrow> 'a list \<Rightarrow> 'a list" where
  "splice_insert i v xs = take i xs @ v # drop i xs"

text \<open>
  The two loops \<open>for (let i = 1; i <= middleCount; i++) positions.splice(i, 0, y i)\<close>
  of \<open>calculateHingeYPositions\<close> differ only in the value \<open>y i\<close> they insert.
\<close>

function splice_loop :: "(int \<Rightarrow> real) \<Rightarrow> int \<Rightarrow> int \<Rightarrow> real list \<Rightarrow> real list" where
  "splice_loop y i middleCount positions =
     (if i \<le> middleCount
      then splice_loop y (i + 1) middleCount (splice_insert (nat i) (y i) positions)
      else positions)"
  by pat_completeness auto
termination
  by (relation "measure (\<lambda>(y, i, middleCount, positions). nat (middleCount + 1 - i))") auto

declare splice_loop.simps [simp del]

text \<open>The value inserted for the \<open>i\<close>-th middle hinge in even mode:
  \<open>bottomOffset + (spacing * i)\<close>, a product and a sum of doubles.\<close>

definition evenY :: "real \<Rightarrow> real \<Rightarrow> int \<Rightarrow> real" where
  "evenY bottomOffset' spacing i = fl (bottomOffset' + fl (spacing * real_of_int i))"

text \<open>
  The value inserted for the \<open>i\<close>-th middle hinge in weighted mode.  The literal \<open>0.8\<close> is
  the double nearest to 0.8.
\<close>

definition weightedY :: "(real \<Rightarrow> real \<Rightarrow> real) \<Rightarrow> real \<Rightarrow> real \<Rightarrow> int \<Rightarrow> int \<Rightarrow> real" where
  "weightedY pow bottomOffset' availableHeight hingeCount' i =
     (let t = fl (real_of_int i / real_of_int (hingeCount' - 1));
          weightedT = pow t (fl 0.8)
      in fl (bottomOffset' + fl (availableHeight * weightedT)))"

definition calculateHingeYPositions ::
  "(real \<Rightarrow> real \<Rightarrow> real) \<Rightarrow> int \<Rightarrow> real \<Rightarrow> real \<Rightarrow> real \<Rightarrow> DistributionMode \<Rightarrow>
   HingeError + real list" where
  "calculateHingeYPositions pow hingeCount' doorHeight' topOffset' bottomOffset' mode =
     (if hingeCount' < 2 then Inl MinimumTwoHingesRequired
      else
        let positions = [bottomOffset', fl (doorHeight' - topOffset')] in
        if hingeCount' = 2 then Inr positions
        else
          let middleCount = hingeCount' - 2;
              availableHeight = fl (fl (doorHeight' - topOffset') - bottomOffset');
              positions' =
                (case mode of
                   Even \<Rightarrow>
                     let spacing = fl (availableHeight / real_of_int (hingeCount' - 1))
                     in splice_loop (evenY bottomOffset' spacing) 1 middleCount positions
                 | Weighted \<Rightarrow>
                     splice_loop (weightedY pow bottomOffset' availableHeight hingeCount') 1
                       middleCount positions)
          in Inr (sort positions'))"

definition getHingeZPosition :: "HingeType \<Rightarrow> real \<Rightarrow> real" where
  "getHingeZPosition hingeType' leafThickness' =
     (case hingeType' of
        Butt \<Rightarrow> 0
      | Concealed \<Rightarrow> - (leafThickness' - 10)
      | Piano \<Rightarrow> 0)"

definition getHingeRotation :: "Side \<Rightarrow> HingeType \<Rightarrow> Euler" where
  "getHingeRotation hingeSide' hingeType' =
     (let rotationY = (if hingeSide' = Left then pi / 2 else - pi / 2)
      in \<lparr>rot_x = 0, rot_y = rotationY, rot_z = 0, rot_order = ''XYZ''\<rparr>)"

definition adjustButtHingePlacement :: "Vector3 \<Rightarrow> Side \<Rightarrow> ButtHingeParams \<Rightarrow> Vector3" where
  "adjustButtHingePlacement basePosition hingeSide' params =
     (let offset = barrelDiameter params / 2 in
      if hingeSide' = Left
      then \<lparr>vx = vx basePosition + (- offset), vy = vy basePosition + 0, vz = vz basePosition + 0\<rparr>
      else \<lparr>vx = vx basePosition + offset, vy = vy basePosition + 0, vz = vz basePosition + 0\<rparr>)"

definition adjustConcealedHingePlacement ::
  "Vector3 \<Rightarrow> real \<Rightarrow> ConcealedHingeParams \<Rightarrow> Vector3" where
  "adjustConcealedHingePlacement basePosition leafThickness' params =
     (let cupCenterZ = - (cupDepth params / 2);
          edgeInset = 5
      in \<lparr>vx = vx basePosition + (if vx basePosition = 0 then edgeInset else - edgeInset),
          vy = vy basePosition,
          vz = cupCenterZ\<rparr>)"

definition calculatePianoHingePlacement ::
  "real \<Rightarrow> real \<Rightarrow> Side \<Rightarrow> PianoHingeParams \<Rightarrow> HingePlacement" where
  "calculatePianoHingePlacement doorHeight' doorWidth' hingeSide' params =
     (let xPos = (if hingeSide' = Left then 0 else doorWidth');
          yPos = doorHeight' / 2
      in \<lparr>hp_id = None,
          hp_position = \<lparr>vx = xPos, vy = yPos, vz = 0\<rparr>,
          hp_rotation = getHingeRotation hingeSide' Piano,
          hp_metadata = \<lparr>m_index = None, m_type = None, m_side = None, m_yPosition = None,
                          m_isPiano = Some True, m_length = Some doorHeight'\<rparr>\<rparr>)"

definition validateHingeCount :: "real \<Rightarrow> real \<Rightarrow> int \<Rightarrow> HingeError ValidationResult" where
  "validateHingeCount doorHeight' doorWeight hingeCount' =
     (let minRequired = (if doorHeight' > 2100 then 3 else (2::int));
          minRequired = (if doorWeight > 50 then max minRequired 3 else minRequired);
          minRequired = (if doorWeight > 80 then max minRequired 4 else minRequired)
      in if hingeCount' < minRequired
         then Invalid (MinimumHingeCountViolation minRequired doorHeight' doorWeight)
         else Valid)"

definition validateOffsets :: "real \<Rightarrow> real \<Rightarrow> real \<Rightarrow> int \<Rightarrow> OffsetError ValidationResult" where
  "validateOffsets doorHeight' topOffset' bottomOffset' hingeCount' =
     (if topOffset' < 100 then Invalid TopOffsetTooSmall
      else if bottomOffset' < 100 then Invalid BottomOffsetTooSmall
      else
        let availableSpace = doorHeight' - topOffset' - bottomOffset';
            minSpacingPerHinge = 150;
            requiredSpace = real_of_int (hingeCount' - 2) * minSpacingPerHinge
        in if availableSpace < requiredSpace
           then Invalid (InsufficientSpace hingeCount')
           else Valid)"

text \<open>Decimal rendering of an index inside a template string.\<close>

fun string_of_nat :: "nat \<Rightarrow> string" where
  "string_of_nat n =
     (if n < 10 then [char_of (48 + n)]
      else string_of_nat (n div 10) @ [char_of (48 + n mod 10)])"

declare string_of_nat.simps [simp del]

text \<open>\<open>rules?.field || d\<close>: the default replaces an absent rule set, an absent field and
  the falsy value \<open>0\<close>.\<close>

definition rule_or :: "PlacementRules option \<Rightarrow> (PlacementRules \<Rightarrow> real option) \<Rightarrow> real \<Rightarrow> real" where
  "rule_or rules field d =
     (case rules of
        None \<Rightarrow> d
      | Some r \<Rightarrow> (case field r of None \<Rightarrow> d | Some v \<Rightarrow> if v = 0 then d else v))"

definition mode_or :: "PlacementRules option \<Rightarrow> DistributionMode \<Rightarrow> DistributionMode" where
  "mode_or rules d =
     (case rules of
        None \<Rightarrow> d
      | Some r \<Rightarrow> (case distributionMode r of None \<Rightarrow> d | Some m \<Rightarrow> m))"

text \<open>Step 7 of \<open>placeHinges\<close>: the loop over \<open>yPositions\<close>, from index \<open>i\<close> on.\<close>

fun buildPlacements ::
  "HingePlacementInput \<Rightarrow> real \<Rightarrow> real \<Rightarrow> Euler \<Rightarrow> nat \<Rightarrow> real list \<Rightarrow> HingePlacement list" where
  "buildPlacements input xPos zPos rotation i [] = []"
| "buildPlacements input xPos zPos rotation i (yPos # rest) =
     (let position = \<lparr>vx = xPos, vy = yPos, vz = zPos\<rparr>;
          position =
            (if hingeType input = Butt
             then adjustButtHingePlacement position (hingeSide input)
                    \<lparr>plateWidth = 45, plateHeight = 75, barrelDiameter = 12\<rparr>
             else if hingeType input = Concealed
             then adjustConcealedHingePlacement position (leafThickness input)
                    \<lparr>cupDiameter = 35, cupDepth = 12, armLength = 95\<rparr>
             else position)
      in \<lparr>hp_id = Some (''hinge_'' @ string_of_nat i),
          hp_position = position,
          hp_rotation = rotation,
          hp_metadata = \<lparr>m_index = Some i, m_type = Some (hingeTypeName (hingeType input)),
                          m_side = Some (hingeSide input), m_yPosition = Some yPos,
                          m_isPiano = None, m_length = None\<rparr>\<rparr>
         # buildPlacements input xPos zPos rotation (Suc i) rest)"

text \<open>
  \<open>placeHinges\<close>.  The helper \<open>estimateDoorWeight\<close> is called by the source but not
  defined there, so it is a parameter, as is \<open>Math.pow\<close>.
\<close>

definition placeHinges ::
  "(real \<Rightarrow> real \<Rightarrow> real) \<Rightarrow> (HingePlacementInput \<Rightarrow> real) \<Rightarrow> HingePlacementInput \<Rightarrow>
   HingeError + HingePlacement list" where
  "placeHinges pow estimateDoorWeight input =
     (case validateHingeCount (doorHeight input) (estimateDoorWeight input) (hingeCount input) of
        Invalid e \<Rightarrow> Inl e
      | Valid \<Rightarrow>
          if hingeType input = Piano
          then Inr [calculatePianoHingePlacement (doorHeight input) (doorWidth input)
                      (hingeSide input) \<lparr>piano_width = 30, fullHeight = True\<rparr>]
          else
            (case calculateHingeYPositions pow (hingeCount input) (doorHeight input)
                    (rule_or (placementRules input) topOffset 150)
                    (rule_or (placementRules input) bottomOffset 150)
                    (mode_or (placementRules input) Even) of
               Inl e \<Rightarrow> Inl e
             | Inr yPositions \<Rightarrow>
                 let xPos = getHingeXPosition (hingeSide input) (doorWidth input);
                     zPos = getHingeZPosition (hingeType input) (leafThickness input);
                     rotation = getHingeRotation (hingeSide input) (hingeType input)
                 in Inr (buildPlacements input xPos zPos rotation 0 yPositions)))"

section \<open>Lock placement: validation\<close>

datatype LockType = Cylinder | Mortise | Deadbolt | Smart

record LockPlacementInput =
  lk_doorHeight :: real
  lk_doorWidth :: real
  lk_leafThickness :: real
  lockType :: LockType
  lockHeight :: real
  edgeOffset :: real
  lk_edge :: Side
  lk_handleHeight :: "real option"

text \<open>
  The failures of \<open>validateLockPlacement\<close>, in the order of its rules:
  \<open>Lock height must be between 800-1200mm\<close>,
  \<open>Lock conflicts with hinge at Y mm\<close>,
  \<open>Lock edge offset must be between 50-90mm\<close> and
  \<open>Door thickness T mm insufficient for K lock (minimum M mm)\<close>.
\<close>

datatype LockError =
  HeightOutOfRange
  | HingeProximityViolation real
  | EdgeOffsetOutOfRange
  | ThicknessInsufficient real LockType real

definition getMinimumThicknessForLock :: "LockType \<Rightarrow> real" where
  "getMinimumThicknessForLock lockType' =
     (let requirement =
            (case lockType' of Cylinder \<Rightarrow> 35 | Mortise \<Rightarrow> 40 | Deadbolt \<Rightarrow> 38 | Smart \<Rightarrow> 40)
      in if requirement = 0 then 35 else requirement)"

text \<open>Rule 2 of \<open>validateLockPlacement\<close>: the loop over the hinges returns at the first
  hinge that is too close, with that hinge's height.\<close>

fun hingeConflictLoop :: "real \<Rightarrow> real \<Rightarrow> HingePlacement list \<Rightarrow> real option" where
  "hingeConflictLoop lockHeight' minDistanceFromHinge [] = None"
| "hingeConflictLoop lockHeight' minDistanceFromHinge (hinge # rest) =
     (let distanceY = \<bar>vy (hp_position hinge) - lockHeight'\<bar> in
      if distanceY < minDistanceFromHinge then Some (vy (hp_position hinge))
      else hingeConflictLoop lockHeight' minDistanceFromHinge rest)"

definition validateLockPlacement ::
  "LockPlacementInput \<Rightarrow> HingePlacement list \<Rightarrow> LockError ValidationResult" where
  "validateLockPlacement input hingePlacements =
     (if lockHeight input < 800 \<or> lockHeight input > 1200 then Invalid HeightOutOfRange
      else
        (case hingeConflictLoop (lockHeight input) 150 hingePlacements of
           Some y \<Rightarrow> Invalid (HingeProximityViolation y)
         | None \<Rightarrow>
             if edgeOffset input < 50 \<or> edgeOffset input > 90 then Invalid EdgeOffsetOutOfRange
             else
               let minThickness = getMinimumThicknessForLock (lockType input) in
               if lk_leafThickness input < minThickness
               then Invalid (ThicknessInsufficient (lk_leafThickness input) (lockType input)
                               minThickness)
               else Valid))"

section \<open>Handle placement\<close>

datatype HandleType = Lever | Knob | Pull | Bar
datatype HandleStyle = Modern | Traditional | Industrial | Minimal
datatype HandleSides = Both | ExteriorOnly | InteriorOnly
datatype MountSide = Exterior | Interior

record HandlePlacementInput =
  hd_doorHeight :: real
  hd_doorWidth :: real
  hd_leafThickness :: real
  handleType :: HandleType
  handleStyle :: HandleStyle
  handleHeight :: real
  hd_side :: HandleSides
  hd_lockHeight :: "real option"
  hd_edge :: Side

text \<open>
  The interfaces \<open>LockPlacement\<close> and \<open>HandlePlacement\<close> are used by the source but
  not declared there; the records hold the properties the source reads from them
  (\<open>id\<close>, \<open>position\<close>, \<open>metadata.type\<close>).
\<close>

record LockPlacement =
  lp_id :: "string option"
  lp_position :: Vector3
  lp_type :: "string option"

record HandlePlacement =
  ha_id :: "string option"
  ha_position :: Vector3
  ha_type :: "string option"

text \<open>Truthiness of an optional number: \<open>undefined\<close> and \<open>0\<close> are falsy.\<close>

definition truthy :: "real option \<Rightarrow> bool" where
  "truthy v = (case v of None \<Rightarrow> False | Some n \<Rightarrow> n \<noteq> 0)"

definition calculateHandleDepth :: "HandleType \<Rightarrow> real \<Rightarrow> MountSide \<Rightarrow> real" where
  "calculateHandleDepth handleType' leafThickness' side =
     (case handleType' of
        Lever \<Rightarrow> (if side = Exterior then 0 else - leafThickness')
      | Knob \<Rightarrow> (if side = Exterior then 0 else - leafThickness')
      | Pull \<Rightarrow>
          (let standoffDistance = 40 in
           if side = Exterior then standoffDistance else - (leafThickness' + standoffDistance))
      | Bar \<Rightarrow>
          (let barStandoff = 50 in
           if side = Exterior then barStandoff else - (leafThickness' + barStandoff)))"

definition calculateHandlePosition :: "HandlePlacementInput \<Rightarrow> MountSide \<Rightarrow> Vector3" where
  "calculateHandlePosition input side =
     (let edgeOffset' = (if truthy (hd_lockHeight input) then 60 else 70);
          xPos = (if hd_edge input = Left then edgeOffset' else hd_doorWidth input - edgeOffset');
          yPos = handleHeight input;
          zPos = calculateHandleDepth (handleType input) (hd_leafThickness input) side
      in \<lparr>vx = xPos, vy = yPos, vz = zPos\<rparr>)"

definition coordinateHandleWithLock ::
  "HandlePlacementInput \<Rightarrow> LockPlacement \<Rightarrow> HandlePlacementInput" where
  "coordinateHandleWithLock handleInput lockPlacement =
     (if \<not> truthy (hd_lockHeight handleInput) then handleInput
      else handleInput\<lparr>handleHeight := vy (lp_position lockPlacement)\<rparr>)"

section \<open>Inactive-leaf bolt placement\<close>

datatype BoltType = Flush | Surface | Automatic
datatype BoltPosition = Top | Bottom

record BoltPlacementInput =
  bt_doorHeight :: real
  bt_doorWidth :: real
  bt_leafThickness :: real
  boltType :: BoltType
  positions :: "BoltPosition list"
  bt_topOffset :: real
  bt_bottomOffset :: real
  meetingEdge :: Side

record BoltMetadata =
  bm_position :: BoltPosition
  bm_type :: string

record BoltPlacement =
  bp_id :: string
  bp_position :: Vector3
  bp_rotation :: Euler
  bp_metadata :: BoltMetadata

text \<open>
  The failures of \<open>validateBoltPlacement\<close>:
  \<open>Top bolt offset must be between 150-300mm\<close>,
  \<open>Bottom bolt offset must be between 150-300mm\<close>,
  \<open>At least one bolt position required\<close> and
  \<open>Flush/automatic bolts require minimum 40mm door thickness\<close>.
\<close>

datatype BoltError =
  TopBoltOffsetOutOfRange
  | BottomBoltOffsetOutOfRange
  | NoPositionsSpecified
  | BoltThicknessInsufficient

definition boltTypeName :: "BoltType \<Rightarrow> string" where
  "boltTypeName t = (case t of Flush \<Rightarrow> ''flush'' | Surface \<Rightarrow> ''surface'' | Automatic \<Rightarrow> ''automatic'')"

definition boltPositionName :: "BoltPosition \<Rightarrow> string" where
  "boltPositionName p = (case p of Top \<Rightarrow> ''top'' | Bottom \<Rightarrow> ''bottom'')"

definition calculateBoltDepth :: "BoltType \<Rightarrow> real \<Rightarrow> real" where
  "calculateBoltDepth boltType' leafThickness' =
     (case boltType' of
        Flush \<Rightarrow> - leafThickness' / 2
      | Surface \<Rightarrow> 0
      | Automatic \<Rightarrow> - leafThickness' / 2)"

definition calculateBoltRotation :: "BoltPosition \<Rightarrow> BoltType \<Rightarrow> Euler" where
  "calculateBoltRotation position boltType' =
     (let rotationZ =
            (if boltType' = Flush \<or> boltType' = Automatic
             then (if position = Top then 0 else pi)
             else if boltType' = Surface then 0
             else 0)
      in \<lparr>rot_x = 0, rot_y = 0, rot_z = rotationZ, rot_order = ''XYZ''\<rparr>)"

text \<open>The body of the loop of \<open>calculateBoltPositions\<close> for one requested position.\<close>

definition boltPlacementAt :: "BoltPlacementInput \<Rightarrow> BoltPosition \<Rightarrow> BoltPlacement" where
  "boltPlacementAt input position =
     (let yPos = (if position = Top then bt_doorHeight input - bt_topOffset input
                  else bt_bottomOffset input);
          xPos = (if meetingEdge input = Left then 40 else bt_doorWidth input - 40);
          zPos = calculateBoltDepth (boltType input) (bt_leafThickness input)
      in \<lparr>bp_id = ''bolt_'' @ boltPositionName position,
          bp_position = \<lparr>vx = xPos, vy = yPos, vz = zPos\<rparr>,
          bp_rotation = calculateBoltRotation position (boltType input),
          bp_metadata = \<lparr>bm_position = position, bm_type = boltTypeName (boltType input)\<rparr>\<rparr>)"

fun boltLoop :: "BoltPlacementInput \<Rightarrow> BoltPosition list \<Rightarrow> BoltPlacement list" where
  "boltLoop input [] = []"
| "boltLoop input (position # rest) = boltPlacementAt input position # boltLoop input rest"

definition calculateBoltPositions :: "BoltPlacementInput \<Rightarrow> BoltPlacement list" where
  "calculateBoltPositions input = boltLoop input (positions input)"

definition validateBoltPlacement :: "BoltPlacementInput \<Rightarrow> BoltError ValidationResult" where
  "validateBoltPlacement input =
     (if bt_topOffset input < 150 \<or> bt_topOffset input > 300
      then Invalid TopBoltOffsetOutOfRange
      else if bt_bottomOffset input < 150 \<or> bt_bottomOffset input > 300
      then Invalid BottomBoltOffsetOutOfRange
      else if length (positions input) = 0 then Invalid NoPositionsSpecified
      else if (boltType input = Flush \<or> boltType input = Automatic) \<and> bt_leafThickness input < 40
      then Invalid BoltThicknessInsufficient
      else Valid)"

section \<open>Hardware conflict detection\<close>

datatype ConflictType = Overlap | Proximity
datatype Severity = Error | Warning

record HardwareConflict =
  c_type :: ConflictType
  c_items :: "string option \<times> string option"
  c_distance :: real
  c_severity :: Severity

text \<open>An element of \<open>allHardware: any[]\<close>, with the properties the detector reads.\<close>

record HardwareItem =
  hw_id :: "string option"
  hw_position :: Vector3
  hw_type :: "string option"

definition hingeItem :: "HingePlacement \<Rightarrow> HardwareItem" where
  "hingeItem h = \<lparr>hw_id = hp_id h, hw_position = hp_position h, hw_type = m_type (hp_metadata h)\<rparr>"

definition lockItem :: "LockPlacement \<Rightarrow> HardwareItem" where
  "lockItem l = \<lparr>hw_id = lp_id l, hw_position = lp_position l, hw_type = lp_type l\<rparr>"

definition handleItem :: "HandlePlacement \<Rightarrow> HardwareItem" where
  "handleItem h = \<lparr>hw_id = ha_id h, hw_position = ha_position h, hw_type = ha_type h\<rparr>"

definition boltItem :: "BoltPlacement \<Rightarrow> HardwareItem" where
  "boltItem b = \<lparr>hw_id = Some (bp_id b), hw_position = bp_position b,
                  hw_type = Some (bm_type (bp_metadata b))\<rparr>"

definition distanceTo :: "Vector3 \<Rightarrow> Vector3 \<Rightarrow> real" where
  "distanceTo a b =
     (let dx = vx a - vx b; dy = vy a - vy b; dz = vz a - vz b
      in sqrt (dx * dx + dy * dy + dz * dz))"

definition minClearance :: "string \<rightharpoonup> real" where
  "minClearance =
     [''hinge-lock'' \<mapsto> 150, ''hinge-handle'' \<mapsto> 100, ''hinge-bolt'' \<mapsto> 200,
      ''lock-handle'' \<mapsto> 50, ''lock-bolt'' \<mapsto> 300, ''handle-bolt'' \<mapsto> 200]"

text \<open>
  \<open>[t1, t2].sort()\<close>: the default sort compares strings by their code units and moves
  \<open>undefined\<close> to the end.
\<close>

definition sortTypes :: "string option \<Rightarrow> string option \<Rightarrow> string option \<times> string option" where
  "sortTypes t1 t2 =
     (case (t1, t2) of
        (None, _) \<Rightarrow> (t2, t1)
      | (Some a, None) \<Rightarrow> (t1, t2)
      | (Some a, Some b) \<Rightarrow> if b < a then (t2, t1) else (t1, t2))"

text \<open>A value inside a template string.\<close>

definition typeText :: "string option \<Rightarrow> string" where
  "typeText t = (case t of None \<Rightarrow> ''undefined'' | Some s \<Rightarrow> s)"

definition clearanceKey :: "HardwareItem \<Rightarrow> HardwareItem \<Rightarrow> string" where
  "clearanceKey item1 item2 =
     (let types = sortTypes (hw_type item1) (hw_type item2)
      in typeText (fst types) @ ''-'' @ typeText (snd types))"

text \<open>\<open>minClearance[key] || 100\<close>.\<close>

definition requiredClearance :: "HardwareItem \<Rightarrow> HardwareItem \<Rightarrow> real" where
  "requiredClearance item1 item2 =
     (case minClearance (clearanceKey item1 item2) of
        None \<Rightarrow> 100
      | Some r \<Rightarrow> if r = 0 then 100 else r)"

text \<open>The body of the inner loop of \<open>detectHardwareConflicts\<close> for one pair.\<close>

definition checkPair :: "HardwareItem \<Rightarrow> HardwareItem \<Rightarrow> HardwareConflict list" where
  "checkPair item1 item2 =
     (let distance = distanceTo (hw_position item1) (hw_position item2);
          required = requiredClearance item1 item2
      in if distance < required
         then [\<lparr>c_type = (if distance < required * 0.5 then Overlap else Proximity),
                 c_items = (hw_id item1, hw_id item2),
                 c_distance = distance,
                 c_severity = (if distance < required * 0.5 then Error else Warning)\<rparr>]
         else [])"

fun innerLoop :: "HardwareItem \<Rightarrow> HardwareItem list \<Rightarrow> HardwareConflict list" where
  "innerLoop item1 [] = []"
| "innerLoop item1 (item2 # rest) = checkPair item1 item2 @ innerLoop item1 rest"

fun outerLoop :: "HardwareItem list \<Rightarrow> HardwareConflict list" where
  "outerLoop [] = []"
| "outerLoop (item1 # rest) = innerLoop item1 rest @ outerLoop rest"

definition detectHardwareConflicts ::
  "HingePlacement list \<Rightarrow> LockPlacement option \<Rightarrow> HandlePlacement list option \<Rightarrow>
   BoltPlacement list option \<Rightarrow> HardwareConflict list" where
  "detectHardwareConflicts hinges lock handles bolts =
     (let allHardware =
            map hingeItem hinges
            @ (case lock of Some l \<Rightarrow> [lockItem l] | None \<Rightarrow> [])
            @ (case handles of Some hs \<Rightarrow> map handleItem hs | None \<Rightarrow> [])
            @ (case bolts of Some bs \<Rightarrow> map boltItem bs | None \<Rightarrow> [])
      in outerLoop allHardware)"

section \<open>Concrete scenarios and projections\<close>

text \<open>A weight estimate that returns the same weight (in kg) for every door.\<close>

definition fixedWeight :: "real \<Rightarrow> HingePlacementInput \<Rightarrow> real" where
  "fixedWeight w input = w"

text \<open>A 2000 x 900 x 40 mm leaf with the default placement rules.\<close>

definition exampleHingeInput :: "HingeType \<Rightarrow> Side \<Rightarrow> int \<Rightarrow> HingePlacementInput" where
  "exampleHingeInput t s n =
     \<lparr>doorHeight = 2000, doorWidth = 900, leafThickness = 40, hingeCount = n,
      hingeType = t, hingeSide = s, placementRules = None\<rparr>"

text \<open>The same leaf with two butt hinges and a user top offset of 50 mm.\<close>

definition smallTopOffsetInput :: HingePlacementInput where
  "smallTopOffsetInput =
     \<lparr>doorHeight = 2000, doorWidth = 900, leafThickness = 40, hingeCount = 2,
      hingeType = Butt, hingeSide = Left,
      placementRules = Some \<lparr>topOffset = Some 50, bottomOffset = Some 150,
                               distributionMode = None\<rparr>\<rparr>"

definition exampleLockInput :: LockPlacementInput where
  "exampleLockInput =
     \<lparr>lk_doorHeight = 2000, lk_doorWidth = 900, lk_leafThickness = 40, lockType = Cylinder,
      lockHeight = 900, edgeOffset = 60, lk_edge = Right, lk_handleHeight = None\<rparr>"

text \<open>A butt hinge as \<open>placeHinges\<close> builds it, at height \<open>y\<close> on the left edge.\<close>

definition buttHingeAt :: "real \<Rightarrow> HingePlacement" where
  "buttHingeAt y =
     \<lparr>hp_id = Some ''hinge_0'', hp_position = \<lparr>vx = 0, vy = y, vz = 0\<rparr>,
      hp_rotation = getHingeRotation Left Butt,
      hp_metadata = \<lparr>m_index = Some 0, m_type = Some ''butt'', m_side = Some Left,
                      m_yPosition = Some y, m_isPiano = None, m_length = None\<rparr>\<rparr>"

definition exampleHandleInput :: "real option \<Rightarrow> HandlePlacementInput" where
  "exampleHandleInput lh =
     \<lparr>hd_doorHeight = 2000, hd_doorWidth = 900, hd_leafThickness = 40, handleType = Lever,
      handleStyle = Modern, handleHeight = 1050, hd_side = Both, hd_lockHeight = lh,
      hd_edge = Right\<rparr>"

definition exampleLock :: LockPlacement where
  "exampleLock =
     \<lparr>lp_id = Some ''lock_0'', lp_position = \<lparr>vx = 840, vy = 1000, vz = - 20\<rparr>,
      lp_type = Some ''cylinder''\<rparr>"

definition exampleBoltInput :: BoltPlacementInput where
  "exampleBoltInput =
     \<lparr>bt_doorHeight = 2000, bt_doorWidth = 900, bt_leafThickness = 40, boltType = Flush,
      positions = [Top, Bottom], bt_topOffset = 200, bt_bottomOffset = 200, meetingEdge = Right\<rparr>"

text \<open>A top bolt on the floor line at distance \<open>d\<close> from the origin, with
  \<open>metadata.type = t\<close>.\<close>

definition boltAt :: "real \<Rightarrow> string \<Rightarrow> BoltPlacement" where
  "boltAt d t =
     \<lparr>bp_id = ''bolt_top'', bp_position = \<lparr>vx = d, vy = 0, vz = 0\<rparr>,
      bp_rotation = calculateBoltRotation Top Flush,
      bp_metadata = \<lparr>bm_position = Top, bm_type = t\<rparr>\<rparr>"

definition lockAtOrigin :: LockPlacement where
  "lockAtOrigin =
     \<lparr>lp_id = Some ''lock_0'', lp_position = \<lparr>vx = 0, vy = 0, vz = 0\<rparr>,
      lp_type = Some ''lock''\<rparr>"

text \<open>The coordinates and ids of a result of \<open>placeHinges\<close>; a thrown error has none.\<close>

definition placementXs :: "HingeError + HingePlacement list \<Rightarrow> real list" where
  "placementXs r = (case r of Inl e \<Rightarrow> [] | Inr ps \<Rightarrow> map (\<lambda>p. vx (hp_position p)) ps)"

definition placementYs :: "HingeError + HingePlacement list \<Rightarrow> real list" where
  "placementYs r = (case r of Inl e \<Rightarrow> [] | Inr ps \<Rightarrow> map (\<lambda>p. vy (hp_position p)) ps)"

definition placementZs :: "HingeError + HingePlacement list \<Rightarrow> real list" where
  "placementZs r = (case r of Inl e \<Rightarrow> [] | Inr ps \<Rightarrow> map (\<lambda>p. vz (hp_position p)) ps)"

definition placementIds :: "HingeError + HingePlacement list \<Rightarrow> string option list" where
  "placementIds r = (case r of Inl e \<Rightarrow> [] | Inr ps \<Rightarrow> map hp_id ps)"

text \<open>A power function that rounds the exact power once.\<close>

definition roundedPow :: "real \<Rightarrow> real \<Rightarrow> real" where
  "roundedPow x y = fl (x powr y)"

section \<open>Auxiliary definitions for the proofs\<close>

text \<open>The unit roundoff of binary64.\<close>

definition u64 :: real where
  "u64 = 1 / 2 ^ 53"

text \<open>
  The heights of even mode by index, as the proofs below show: the two end points, which
  \<open>calculateHingeYPositions\<close> puts into the array first, and the loop's values between.
\<close>

definition evenHeight :: "int \<Rightarrow> real \<Rightarrow> real \<Rightarrow> real \<Rightarrow> int \<Rightarrow> real" where
  "evenHeight n h t b k =
     (if k = 0 then b
      else if k = n - 1 then fl (h - t)
      else evenY b (fl (fl (fl (h - t) - b) / real_of_int (n - 1))) k)"

section \<open>Binary64 rounding: properties\<close>

lemma rne_int: "rne (of_int k) = k"
  by (simp add: rne_def)

lemma rne_close: "\<bar>of_int (rne x) - x\<bar> \<le> 1 / 2"
proof -
  have "of_int \<lfloor>x\<rfloor> \<le> x" "x < of_int \<lfloor>x\<rfloor> + 1"
    by linarith+
  then show ?thesis
    unfolding rne_def Let_def by (auto simp: abs_le_iff)
qed

lemma rne_mono: "x \<le> y \<Longrightarrow> rne x \<le> rne y"
proof (rule ccontr)
  assume xy: "x \<le> y" and "\<not> rne x \<le> rne y"
  then have lt: "rne y + 1 \<le> rne x" by simp
  then have r: "of_int (rne y) + 1 \<le> (of_int (rne x) :: real)"
    by linarith
  from rne_close [of x] rne_close [of y] r xy have "x = y" by linarith
  with lt show False by simp
qed

lemma p2_pos: "0 < p2 k"
  by (simp add: p2_def)

lemma p2_add: "p2 (a + b) = p2 a * p2 b"
  by (simp add: p2_def powr_add)

lemma p2_nat: "p2 (int n) = 2 ^ n"
  by (simp add: p2_def powr_realpow)

lemma p2_mono: "a \<le> b \<Longrightarrow> p2 a \<le> p2 b"
  by (simp add: p2_def)

lemma p2_strict: "a < b \<Longrightarrow> p2 a < p2 b"
  by (simp add: p2_def)

lemma p2_52: "p2 52 = of_int (2 ^ 52)" and p2_53: "p2 53 = of_int (2 ^ 53)"
proof -
  have "p2 (int 52) = 2 ^ 52" "p2 (int 53) = 2 ^ 53"
    by (rule p2_nat)+
  then show "p2 52 = of_int (2 ^ 52)" "p2 53 = of_int (2 ^ 53)"
    by simp_all
qed

lemma p2_shift: "p2 (e - 52) * p2 52 = p2 e" "p2 (e - 52) * p2 53 = p2 (e + 1)"
proof -
  have "e - 52 + 52 = e" "e - 52 + 53 = e + 1" by simp_all
  then show "p2 (e - 52) * p2 52 = p2 e" "p2 (e - 52) * p2 53 = p2 (e + 1)"
    by (simp_all only: flip: p2_add)
qed

lemma binade_bounds:
  assumes "x \<noteq> 0"
  shows "p2 (binade x) \<le> \<bar>x\<bar>" and "\<bar>x\<bar> < p2 (binade x + 1)"
proof -
  have "0 < \<bar>x\<bar>" using assms by simp
  from floor_log_eq_powr_iff [OF this, of 2 "binade x"]
  show "p2 (binade x) \<le> \<bar>x\<bar>" and "\<bar>x\<bar> < p2 (binade x + 1)"
    by (simp_all add: binade_def p2_def)
qed

lemma binade_eq:
  assumes "p2 e \<le> \<bar>x\<bar>" and "\<bar>x\<bar> < p2 (e + 1)"
  shows "binade x = e"
proof -
  have "0 < \<bar>x\<bar>"
    using assms(1) p2_pos [of e] by linarith
  from floor_log_eq_powr_iff [OF this, of 2 e] assms show ?thesis
    by (simp add: binade_def p2_def)
qed

lemma ulp_pos: "0 < ulp x"
  by (simp add: ulp_def p2_pos)

lemma scaled_bounds:
  assumes "x \<noteq> 0"
  shows "p2 52 \<le> \<bar>x\<bar> / ulp x" and "\<bar>x\<bar> / ulp x < p2 53"
proof -
  have a: "p2 52 * ulp x = p2 (binade x)" "p2 53 * ulp x = p2 (binade x + 1)"
    by (simp_all only: ulp_def mult.commute [of _ "p2 (binade x - 52)"] p2_shift)
  from binade_bounds [OF assms] have "p2 52 * ulp x \<le> \<bar>x\<bar>" "\<bar>x\<bar> < p2 53 * ulp x"
    by (simp_all only: a)
  then show "p2 52 \<le> \<bar>x\<bar> / ulp x" and "\<bar>x\<bar> / ulp x < p2 53"
    by (simp_all only: pos_le_divide_eq [OF ulp_pos] pos_divide_less_eq [OF ulp_pos])
qed

lemma fl_pos_def: "0 < x \<Longrightarrow> fl x = of_int (rne (x / ulp x)) * ulp x"
  by (simp add: fl_def)

lemma fl_neg: "fl (- x) = - fl x"
  by (simp add: fl_def ulp_def binade_def sgn_if)

lemma rne_scaled_bounds:
  assumes "x \<noteq> 0"
  shows "p2 52 \<le> of_int (rne (\<bar>x\<bar> / ulp x))" and "of_int (rne (\<bar>x\<bar> / ulp x)) \<le> p2 53"
proof -
  from scaled_bounds [OF assms] have "(of_int (2 ^ 52) :: real) \<le> \<bar>x\<bar> / ulp x"
    "\<bar>x\<bar> / ulp x \<le> of_int (2 ^ 53)"
    by (simp_all only: p2_52 p2_53 less_imp_le)
  from rne_mono [OF this(1)] rne_mono [OF this(2)]
  have "2 ^ 52 \<le> rne (\<bar>x\<bar> / ulp x)" and "rne (\<bar>x\<bar> / ulp x) \<le> 2 ^ 53"
    by (simp_all only: rne_int)
  then show "p2 52 \<le> of_int (rne (\<bar>x\<bar> / ulp x))" and "of_int (rne (\<bar>x\<bar> / ulp x)) \<le> p2 53"
    by (simp_all only: p2_52 p2_53 of_int_le_iff)
qed

lemma fl_pos_bounds:
  assumes "0 < x"
  shows "p2 (binade x) \<le> fl x" and "fl x \<le> p2 (binade x + 1)"
proof -
  have nz: "x \<noteq> 0" using assms by simp
  have ax: "\<bar>x\<bar> = x" using assms by simp
  have a: "p2 52 * ulp x = p2 (binade x)" "p2 53 * ulp x = p2 (binade x + 1)"
    by (simp_all only: ulp_def mult.commute [of _ "p2 (binade x - 52)"] p2_shift)
  from rne_scaled_bounds [OF nz] have
    "p2 52 * ulp x \<le> of_int (rne (x / ulp x)) * ulp x"
    "of_int (rne (x / ulp x)) * ulp x \<le> p2 53 * ulp x"
    unfolding ax using ulp_pos [of x] by (simp_all only: mult_le_cancel_right_pos)
  then show "p2 (binade x) \<le> fl x" and "fl x \<le> p2 (binade x + 1)"
    by (simp_all only: fl_pos_def [OF assms] a)
qed

lemma fl_0: "fl 0 = 0"
  by (simp add: fl_def)

lemma binade_mono:
  assumes "0 < x" and "x \<le> y"
  shows "binade x \<le> binade y"
proof -
  have "log 2 \<bar>x\<bar> \<le> log 2 \<bar>y\<bar>"
    using assms by simp
  then show ?thesis
    unfolding binade_def by (rule floor_mono)
qed

lemma fl_pos_mono:
  assumes "0 < x" and "x \<le> y"
  shows "fl x \<le> fl y"
proof -
  have y: "0 < y" using assms by simp
  from binade_mono [OF assms] consider
    (same) "binade x = binade y" | (less) "binade x + 1 \<le> binade y"
    by linarith
  then show ?thesis
  proof cases
    case same
    then have u: "ulp x = ulp y" by (simp add: ulp_def)
    have "x / ulp y \<le> y / ulp y"
      using assms(2) ulp_pos [of y] by (simp add: divide_right_mono)
    from rne_mono [OF this] have "of_int (rne (x / ulp y)) * ulp y \<le> of_int (rne (y / ulp y)) * ulp y"
      using ulp_pos [of y] by (simp only: mult_le_cancel_right_pos of_int_le_iff)
    then show ?thesis
      by (simp only: fl_pos_def [OF assms(1)] fl_pos_def [OF y] u)
  next
    case less
    from fl_pos_bounds(2) [OF assms(1)] p2_mono [OF less] fl_pos_bounds(1) [OF y]
    show ?thesis by linarith
  qed
qed

lemma fl_nonneg: "0 \<le> x \<Longrightarrow> 0 \<le> fl x"
proof (cases "x = 0")
  case True
  then show ?thesis by (simp add: fl_0)
next
  case False
  assume "0 \<le> x"
  with False have "0 < x" by simp
  from fl_pos_bounds(1) [OF this] p2_pos [of "binade x"] show ?thesis by linarith
qed

lemma fl_nonpos: "x \<le> 0 \<Longrightarrow> fl x \<le> 0"
  using fl_nonneg [of "- x"] by (simp add: fl_neg)

lemma fl_mono:
  assumes "x \<le> y"
  shows "fl x \<le> fl y"
proof -
  consider (pos) "0 < x" | (mixed) "x \<le> 0" "0 \<le> y" | (neg) "y < 0"
    using assms by linarith
  then show ?thesis
  proof cases
    case pos
    then show ?thesis using assms by (rule fl_pos_mono)
  next
    case mixed
    from fl_nonpos [OF mixed(1)] fl_nonneg [OF mixed(2)] show ?thesis by linarith
  next
    case neg
    then have "0 < - y" "- y \<le> - x" using assms by simp_all
    from fl_pos_mono [OF this] show ?thesis by (simp add: fl_neg)
  qed
qed

lemma p2_1: "p2 1 = 2"
  by (simp add: p2_def)

lemma p2_53_double: "p2 53 = 2 * p2 52"
proof -
  have "p2 (52 + 1) = p2 52 * p2 1" by (rule p2_add)
  then show ?thesis by (simp add: p2_1)
qed

lemma fl_pos_error:
  assumes "0 < x"
  shows "\<bar>fl x - x\<bar> \<le> x / p2 53"
proof -
  let ?q = "ulp x"
  have q: "0 < ?q" by (rule ulp_pos)
  have "\<bar>fl x - x\<bar> = \<bar>of_int (rne (x / ?q)) - x / ?q\<bar> * ?q"
  proof -
    have "fl x - x = (of_int (rne (x / ?q)) - x / ?q) * ?q"
      using q by (simp add: fl_pos_def [OF assms] left_diff_distrib)
    then show ?thesis
      using q by (simp add: abs_mult)
  qed
  also have "\<dots> \<le> 1 / 2 * ?q"
    using rne_close [of "x / ?q"] q by (simp only: mult_le_cancel_right_pos)
  also have "\<dots> \<le> x / p2 53"
  proof -
    have "x \<noteq> 0" "\<bar>x\<bar> = x" using assms by simp_all
    from scaled_bounds(1) [OF this(1)] this(2) have "p2 52 \<le> x / ?q" by simp
    then have "p2 52 * ?q \<le> x"
      using q by (simp add: pos_le_divide_eq)
    moreover have "1 / 2 * ?q * p2 53 = p2 52 * ?q"
      by (simp add: p2_53_double)
    ultimately have "1 / 2 * ?q * p2 53 \<le> x"
      by (simp only:)
    then show ?thesis
      using p2_pos [of 53] by (simp only: pos_le_divide_eq)
  qed
  finally show ?thesis .
qed

lemma fl_error: "\<bar>fl x - x\<bar> \<le> \<bar>x\<bar> / p2 53"
proof -
  consider (pos) "0 < x" | (zero) "x = 0" | (neg) "0 < - x"
    by linarith
  then show ?thesis
  proof cases
    case pos
    from fl_pos_error [OF pos] pos show ?thesis by simp
  next
    case zero
    then show ?thesis by (simp add: fl_0)
  next
    case neg
    from fl_pos_error [OF neg] have "\<bar>- fl x + x\<bar> \<le> - x / p2 53"
      by (simp add: fl_neg)
    moreover have "\<bar>- fl x + x\<bar> = \<bar>fl x - x\<bar>" by simp
    moreover have "\<bar>x\<bar> = - x" using neg by simp
    ultimately show ?thesis by simp
  qed
qed

text \<open>A number with a significand below \<open>2^53\<close> is its own rounding.\<close>

lemma fl_repr_pos:
  assumes m: "0 < m" and bound: "of_int m < p2 53"
  shows "fl (of_int m * p2 k) = of_int m * p2 k"
proof -
  let ?x = "of_int m * p2 k"
  have x: "0 < ?x" using m p2_pos [of k] by simp
  have nz: "?x \<noteq> 0" using m p2_pos [of k] by simp
  have ax: "\<bar>?x\<bar> = ?x" using x by (simp only: abs_of_pos)
  have "?x < p2 53 * p2 k"
    using bound p2_pos [of k] by (simp only: mult_less_cancel_right_pos)
  then have "?x < p2 (53 + k)" by (simp only: p2_add)
  with binade_bounds(1) [OF nz] ax have "p2 (binade ?x) < p2 (53 + k)" by linarith
  then have "binade ?x < 53 + k"
    using p2_mono [of "53 + k" "binade ?x"] by (cases "binade ?x < 53 + k") simp_all
  then have "\<exists>d::nat. k = binade ?x - 52 + int d"
    by (intro exI [of _ "nat (k - binade ?x + 52)"]) simp
  then obtain d :: nat where d: "k = binade ?x - 52 + int d" ..
  define q where "q = ulp ?x"
  have q: "0 < q" by (simp only: q_def ulp_pos)
  have "p2 k = p2 (binade ?x - 52) * 2 ^ d"
    by (subst d) (simp only: p2_add p2_nat)
  then have pk: "p2 k = q * 2 ^ d" by (simp only: q_def ulp_def)
  have xq: "of_int m * p2 k = of_int (m * 2 ^ d) * q"
    by (simp add: pk)
  have "of_int (m * 2 ^ d) * q / q = (of_int (m * 2 ^ d) :: real)"
    using q by simp
  then have "of_int m * p2 k / q = of_int (m * 2 ^ d)"
    by (simp only: xq)
  then have "rne (?x / q) = m * 2 ^ d"
    by (simp only: rne_int)
  then have "fl ?x = of_int (m * 2 ^ d) * q"
    by (simp only: fl_pos_def [OF x] q_def)
  then show ?thesis by (simp only: xq)
qed

lemma fl_repr:
  assumes "\<bar>of_int m\<bar> < p2 53"
  shows "fl (of_int m * p2 k) = of_int m * p2 k"
proof -
  consider (pos) "0 < m" | (zero) "m = 0" | (neg) "0 < - m"
    by linarith
  then show ?thesis
  proof cases
    case pos
    with assms have "of_int m < p2 53" by simp
    from fl_repr_pos [OF pos this] show ?thesis .
  next
    case zero
    then show ?thesis by (simp add: fl_0)
  next
    case neg
    with assms have "of_int (- m) < p2 53" by simp
    from fl_repr_pos [OF neg this, of k] show ?thesis
      by (simp add: fl_neg)
  qed
qed

lemma fl_p2: "fl (p2 k) = p2 k"
proof -
  have "\<bar>of_int 1\<bar> < p2 53"
    using p2_strict [of 0 53] by (simp add: p2_def)
  from fl_repr [OF this, of k] show ?thesis by simp
qed

lemma fl_idem_pos:
  assumes "0 < x"
  shows "fl (fl x) = fl x"
proof -
  have nz: "x \<noteq> 0" and ax: "\<bar>x\<bar> = x" using assms by simp_all
  let ?m = "rne (x / ulp x)"
  have fx: "fl x = of_int ?m * p2 (binade x - 52)"
    by (simp only: fl_pos_def [OF assms] ulp_def)
  from rne_scaled_bounds [OF nz] ax have lo: "p2 52 \<le> of_int ?m" and hi: "of_int ?m \<le> p2 53"
    by simp_all
  show ?thesis
  proof (cases "of_int ?m < p2 53")
    case True
    have "\<bar>of_int ?m\<bar> < p2 53"
      using True lo p2_pos [of 52] by linarith
    from fl_repr [OF this] show ?thesis by (simp only: fx)
  next
    case False
    with hi have "of_int ?m = p2 53" by simp
    then have "fl x = p2 (binade x + 1)"
      by (simp only: fx mult.commute [of "p2 53"] p2_shift)
    then show ?thesis by (simp only: fl_p2)
  qed
qed

lemma fl_idem: "fl (fl x) = fl x"
proof -
  consider (pos) "0 < x" | (zero) "x = 0" | (neg) "0 < - x"
    by linarith
  then show ?thesis
  proof cases
    case pos
    then show ?thesis by (rule fl_idem_pos)
  next
    case zero
    then show ?thesis by (simp add: fl_0)
  next
    case neg
    from fl_idem_pos [OF neg] show ?thesis by (simp add: fl_neg)
  qed
qed

lemma fl_eval:
  assumes "p2 e \<le> x" and "x < p2 (e + 1)"
  shows "fl x = of_int (rne (x / p2 (e - 52))) * p2 (e - 52)"
proof -
  have x: "0 < x" using assms(1) p2_pos [of e] by linarith
  then have "\<bar>x\<bar> = x" by simp
  with binade_eq [of e x] assms have "binade x = e" by simp
  then show ?thesis
    by (simp only: fl_pos_def [OF x] ulp_def)
qed

lemma fl_of_int:
  assumes "\<bar>k\<bar> < 2 ^ 53"
  shows "fl (of_int k) = of_int k"
proof -
  have "\<bar>of_int k\<bar> < (of_int (2 ^ 53) :: real)"
    using assms by (simp only: of_int_abs [symmetric] of_int_less_iff)
  then have "\<bar>of_int k\<bar> < p2 53" by (simp only: p2_53)
  from fl_repr [OF this, of 0] show ?thesis by (simp add: p2_def)
qed

lemma fl_numeral: "numeral w < (9007199254740992::int) \<Longrightarrow> fl (numeral w) = numeral w"
  using fl_of_int [of "numeral w"] by simp

section \<open>Hinge heights: the loop in closed form\<close>

lemma splice_loop_result:
  "0 \<le> i \<Longrightarrow> length pre = nat i \<Longrightarrow>
   splice_loop y i m (pre @ post) = pre @ map y [i..m] @ post"
proof (induction y i m "pre @ post" arbitrary: pre rule: splice_loop.induct)
  case (1 y i m)
  show ?case
  proof (cases "i \<le> m")
    case True
    have ins: "splice_insert (nat i) (y i) (pre @ post) = (pre @ [y i]) @ post"
      using "1.prems" by (simp add: splice_insert_def)
    have len: "length (pre @ [y i]) = nat (i + 1)"
      using "1.prems" by simp
    have "splice_loop y (i + 1) m ((pre @ [y i]) @ post)
            = (pre @ [y i]) @ map y [i + 1..m] @ post"
      using "1.hyps" [OF True ins _ len] "1.prems" by simp
    then show ?thesis
      using True ins by (subst splice_loop.simps) (simp add: upto_rec1 [of i m])
  next
    case False
    then show ?thesis
      by (subst splice_loop.simps) simp
  qed
qed

lemma splice_loop_pair: "splice_loop y 1 m [a, b] = a # map y [1..m] @ [b]"
  using splice_loop_result [of 1 "[a]" y m "[b]"] by simp

lemma upto_ends: "2 \<le> n \<Longrightarrow> [0..n - 1] = 0 # [1..n - 2] @ [n - 1]"
proof -
  assume n: "2 \<le> n"
  have "[0..n - 1] = 0 # [1..n - 1]"
    using n by (simp add: upto_rec1 [of 0 "n - 1"])
  also have "[1..n - 1] = [1..n - 2] @ [n - 1]"
    using n upto_rec2 [of 1 "n - 1"] by (simp add: algebra_simps)
  finally show ?thesis .
qed

lemma sorted_map_upto:
  assumes "\<And>i j. l \<le> i \<Longrightarrow> i \<le> j \<Longrightarrow> j \<le> u \<Longrightarrow> f i \<le> (f j :: real)"
  shows "sorted (map f [l..u])"
proof -
  have "sorted_wrt (\<lambda>i j. f i \<le> f j) [l..u]"
    by (rule sorted_wrt_mono_rel [where P = "(\<le>)"]) (use assms in auto)
  then show ?thesis
    by (simp add: sorted_map)
qed

lemma positions_closed_form:
  assumes n: "2 \<le> n" and y0: "y 0 = a" and yn: "y (n - 1) = b"
  shows "(if n = 2 then [a, b] else splice_loop y 1 (n - 2) [a, b]) = map y [0..n - 1]"
proof -
  have "splice_loop y 1 (n - 2) [a, b] = map y [0..n - 1]"
    using upto_ends [OF n] y0 yn by (simp add: splice_loop_pair)
  moreover have "n = 2 \<Longrightarrow> [a, b] = map y [0..n - 1]"
    using upto_ends [OF n] y0 yn by simp
  ultimately show ?thesis by simp
qed

lemma closed_form_nth: "k < nat n \<Longrightarrow> map f [0..n - 1] ! k = f (int k)"
  by simp

section \<open>Binary64 rounding: error bounds\<close>

lemma u64_pos: "0 < u64" and u64_le_1: "u64 \<le> 1"
  by (simp_all add: u64_def)

lemma p2_53_u64: "1 / p2 53 = u64"
  by (simp add: p2_53 u64_def)

lemma fl_rel: "\<bar>fl x - x\<bar> \<le> u64 * \<bar>x\<bar>"
  using fl_error [of x] by (simp add: p2_53 u64_def)

lemma fl_upper: "0 \<le> x \<Longrightarrow> fl x \<le> x * (1 + u64)"
  using fl_rel [of x] by (simp add: algebra_simps abs_le_iff)

lemma fl_lower: "0 \<le> x \<Longrightarrow> x * (1 - u64) \<le> fl x"
  using fl_rel [of x] by (simp add: algebra_simps abs_le_iff)

lemma num_even: "4294967296 * ((1 + u64) ^ 3 - 1) \<le> 1"
  by (simp add: u64_def power3_eq_cube)



text \<open>A middle value \<open>fl (b + fl x)\<close> stays between the end points.\<close>

lemma middle_between:
  assumes b: "fl b = b" and x0: "0 \<le> x" and xL: "x * (1 + u64) \<le> L - b" and L: "fl L = L"
  shows "b \<le> fl (b + fl x)" and "fl (b + fl x) \<le> L"
proof -
  have "0 \<le> fl x" using x0 by (rule fl_nonneg)
  then have "b \<le> b + fl x" by simp
  from fl_mono [OF this] show "b \<le> fl (b + fl x)" by (simp only: b)
  have "fl x \<le> L - b" using fl_upper [OF x0] xL by linarith
  then have "b + fl x \<le> L" by simp
  from fl_mono [OF this] show "fl (b + fl x) \<le> L" by (simp only: L)
qed

text \<open>The ratio \<open>k / m\<close> of a middle index leaves room for three roundings.\<close>

lemma ratio_room:
  fixes k m :: real
  assumes "0 \<le> k" and "k + 1 \<le> m" and "m \<le> 4294967296"
  shows "k / m * (1 + u64) ^ 3 \<le> 1"
proof -
  have m: "0 < m" using assms by linarith
  have c: "0 \<le> (1 + u64) ^ 3 - 1"
    using u64_pos by (simp add: power3_eq_cube algebra_simps)
  have "k \<le> 4294967296" using assms by linarith
  then have "k * ((1 + u64) ^ 3 - 1) \<le> 4294967296 * ((1 + u64) ^ 3 - 1)"
    using c by (rule mult_right_mono)
  with num_even have "k * ((1 + u64) ^ 3 - 1) \<le> 1" by linarith
  then have "k * (1 + u64) ^ 3 \<le> k + 1" by (simp add: algebra_simps)
  with assms(2) have "k * (1 + u64) ^ 3 \<le> m" by linarith
  then show ?thesis using m by (simp add: pos_divide_le_eq)
qed

lemma even_room:
  fixes k m :: real
  assumes A0: "0 \<le> A" and AD: "A \<le> D * (1 + u64)" and D0: "0 \<le> D"
    and k: "0 \<le> k" "k + 1 \<le> m" "m \<le> 4294967296"
  shows "0 \<le> fl (A / m) * k" and "fl (A / m) * k * (1 + u64) \<le> D"
proof -
  have m: "0 < m" using k by linarith
  let ?c = "1 + u64"
  have c: "0 \<le> ?c" using u64_pos by simp
  have q0: "0 \<le> A / m" using A0 m by simp
  then have s0: "0 \<le> fl (A / m)" by (rule fl_nonneg)
  then show "0 \<le> fl (A / m) * k" using k(1) by simp
  have "fl (A / m) \<le> A / m * ?c" using q0 by (rule fl_upper)
  then have "fl (A / m) * k \<le> A / m * ?c * k"
    using k(1) by (rule mult_right_mono)
  then have "fl (A / m) * k * ?c \<le> A / m * ?c * k * ?c"
    using c by (rule mult_right_mono)
  also have "A / m * ?c * k * ?c = A * (k / m * ?c ^ 2)"
    by (simp add: power2_eq_square)
  also have "\<dots> \<le> D * ?c * (k / m * ?c ^ 2)"
  proof (rule mult_right_mono [OF AD])
    show "0 \<le> k / m * ?c ^ 2" using k(1) m by simp
  qed
  also have "\<dots> = D * (k / m * ?c ^ 3)"
    by (simp add: power2_eq_square power3_eq_cube)
  also have "\<dots> \<le> D * 1"
    using ratio_room [OF k] D0 by (rule mult_left_mono)
  finally show "fl (A / m) * k * ?c \<le> D" by simp
qed

lemma p2_neg: "p2 (- int n) = 1 / 2 ^ n"
  by (simp add: p2_def powr_minus_divide powr_realpow)



lemma fl_pos: "0 < x \<Longrightarrow> 0 < fl x"
  using fl_pos_bounds(1) [of x] p2_pos [of "binade x"] by linarith



lemma available_height:
  assumes b: "fl b = b" and space: "t + b \<le> h"
  shows "b \<le> fl (h - t)" and "0 \<le> fl (fl (h - t) - b)"
    and "fl (fl (h - t) - b) \<le> (fl (h - t) - b) * (1 + u64)"
proof -
  have "b \<le> h - t" using space by simp
  from fl_mono [OF this] show L: "b \<le> fl (h - t)" by (simp only: b)
  then have d: "0 \<le> fl (h - t) - b" by simp
  then show "0 \<le> fl (fl (h - t) - b)" by (rule fl_nonneg)
  from d show "fl (fl (h - t) - b) \<le> (fl (h - t) - b) * (1 + u64)" by (rule fl_upper)
qed


section \<open>Hinge heights: order\<close>

lemma evenY_between:
  assumes b: "fl b = b" and space: "t + b \<le> h"
    and i: "1 \<le> i" "i \<le> n - 2" and n: "n \<le> 4294967296"
  shows "b \<le> evenY b (fl (fl (fl (h - t) - b) / real_of_int (n - 1))) i"
    and "evenY b (fl (fl (fl (h - t) - b) / real_of_int (n - 1))) i \<le> fl (h - t)"
proof -
  let ?L = "fl (h - t)"
  let ?A = "fl (?L - b)"
  let ?k = "real_of_int i" and ?m = "real_of_int (n - 1)"
  note ah = available_height [OF b space]
  have D0: "0 \<le> ?L - b" using ah(1) by simp
  have k: "0 \<le> ?k" "?k + 1 \<le> ?m" "?m \<le> 4294967296"
    using i n by simp_all
  note room = even_room [OF ah(2) ah(3) D0 k]
  from middle_between [OF b room fl_idem]
  show "b \<le> evenY b (fl (?A / ?m)) i" and "evenY b (fl (?A / ?m)) i \<le> ?L"
    by (simp_all only: evenY_def)
qed



lemma calculateHingeYPositions_unfold:
  assumes "2 \<le> n"
  shows "calculateHingeYPositions pw n h t b mode =
     Inr (if n = 2 then [b, fl (h - t)]
          else sort (splice_loop
                 (case mode of
                    Even \<Rightarrow> evenY b (fl (fl (fl (h - t) - b) / real_of_int (n - 1)))
                  | Weighted \<Rightarrow> weightedY pw b (fl (fl (h - t) - b)) n)
                 1 (n - 2) [b, fl (h - t)]))"
  using assms by (cases mode) (simp_all add: calculateHingeYPositions_def Let_def)

lemma binary64_length_numeral:
  assumes "numeral w < (9007199254740992::int)"
  shows "binary64_length (numeral w)"
proof -
  have f: "fl (numeral w) = numeral w" using assms by (rule fl_numeral)
  have "p2 (- 500) \<le> p2 0" by (rule p2_mono) simp
  then have lo: "p2 (- 500) \<le> 1" by (simp add: p2_def)
  have "p2 53 \<le> p2 500" by (rule p2_mono) simp
  then have hi: "9007199254740992 \<le> p2 500" by (simp add: p2_53)
  have n1: "(1::real) \<le> numeral w" by simp
  have "(of_int (numeral w) :: real) < of_int 9007199254740992"
    using assms by (simp only: of_int_less_iff)
  then have n2: "(numeral w :: real) < 9007199254740992"
    by (simp only: of_int_numeral)
  have a: "\<bar>numeral w :: real\<bar> = numeral w" by simp
  show ?thesis
    unfolding binary64_length_def
  proof (intro conjI disjI2)
    show "fl (numeral w) = numeral w" by (rule f)
    show "p2 (- 500) \<le> \<bar>numeral w\<bar>" unfolding a using lo n1 by linarith
    show "\<bar>numeral w\<bar> \<le> p2 500" unfolding a using hi n2 by linarith
  qed
qed


text \<open>Rounding at concrete numbers.\<close>

lemma fl_dyadic:
  assumes "\<bar>m\<bar> < 2 ^ 53"
  shows "fl (of_int m / 2 ^ n) = of_int m / 2 ^ n"
proof -
  have "\<bar>of_int m\<bar> < (of_int (2 ^ 53) :: real)"
    using assms by (simp only: of_int_abs [symmetric] of_int_less_iff)
  then have "\<bar>of_int m\<bar> < p2 53" by (simp only: p2_53)
  from fl_repr [OF this, of "- int n"] show ?thesis by (simp add: p2_neg)
qed






lemma fl_eval_e: "fl (1700 / 3) = 4984452712584533 / 8796093022208"
proof -
  let ?x = "1700 / 3 :: real"
  have p9: "p2 9 = 512" "p2 10 = 1024"
    using p2_nat [of 9] p2_nat [of 10] by simp_all
  have q: "p2 (9 - 52) = 1 / 2 ^ 43" using p2_neg [of 43] by simp
  have "p2 9 \<le> ?x" "?x < p2 (9 + 1)" by (simp_all add: p9)
  from fl_eval [OF this] have "fl ?x = of_int (rne (?x / (1 / 2 ^ 43))) * (1 / 2 ^ 43)"
    by (simp only: q)
  moreover have "rne (?x / (1 / 2 ^ 43)) = 4984452712584533"
    by (simp add: rne_def Let_def)
  ultimately show ?thesis by simp
qed

lemma fl_eval_f: "fl (4984452712584533 / 8796093022208) = 4984452712584533 / 8796093022208"
  using fl_dyadic [of 4984452712584533 43] by simp

lemma fl_eval_g: "fl (6303866665915733 / 8796093022208) = 6303866665915733 / 8796093022208"
  using fl_dyadic [of 6303866665915733 43] by simp

lemma fl_eval_h: "fl (4984452712584533 / 4398046511104) = 4984452712584533 / 4398046511104"
  using fl_dyadic [of 4984452712584533 42] by simp

lemma fl_eval_i: "fl (5644159689250133 / 4398046511104) = 5644159689250133 / 4398046511104"
  using fl_dyadic [of 5644159689250133 42] by simp


lemma four_hinge_heights:
  "calculateHingeYPositions roundedPow 4 2000 150 150 Even
     = Inr [150, 6303866665915733 / 2 ^ 43, 5644159689250133 / 2 ^ 42, 1850]"
  by (simp add: calculateHingeYPositions_def Let_def splice_loop.simps splice_insert_def
      evenY_def fl_numeral fl_eval_e fl_eval_f fl_eval_g fl_eval_h fl_eval_i)

lemma scenario_heights:
  "calculateHingeYPositions pow 3 2400 150 150 Even = Inr [150, 1200, 2250]"
  by (simp add: calculateHingeYPositions_def Let_def splice_loop.simps splice_insert_def
      evenY_def fl_numeral)

lemma crossing_offsets_heights:
  "calculateHingeYPositions pow 3 200 150 150 Even = Inr [50, 100, 150]"
  by (simp add: calculateHingeYPositions_def Let_def splice_loop.simps splice_insert_def
      evenY_def fl_numeral fl_neg)



section \<open>Hinge heights: accuracy of even mode\<close>

lemma evenY_mono: "0 \<le> s \<Longrightarrow> i \<le> j \<Longrightarrow> evenY b s i \<le> evenY b s j"
proof -
  assume s: "0 \<le> s" and ij: "i \<le> j"
  have "real_of_int i \<le> real_of_int j" using ij by simp
  then have "s * real_of_int i \<le> s * real_of_int j"
    using s by (rule mult_left_mono)
  from fl_mono [OF this] have "b + fl (s * real_of_int i) \<le> b + fl (s * real_of_int j)"
    by simp
  from fl_mono [OF this] show ?thesis by (simp only: evenY_def)
qed

text \<open>Accumulated rounding error of a middle hinge in even mode.\<close>

lemma evenY_error:
  fixes h t b :: real and i n :: int
  defines "E \<equiv> h - t"
  defines "M \<equiv> \<bar>b\<bar> + \<bar>E\<bar>"
  defines "r \<equiv> real_of_int i / real_of_int (n - 1)"
  assumes b: "fl b = b" and space: "t + b \<le> h" and i: "1 \<le> i" "i \<le> n - 2"
  shows "\<bar>evenY b (fl (fl (fl E - b) / real_of_int (n - 1))) i - (b + (E - b) * r)\<bar>
           \<le> 32 * (u64 * M)"
proof -
  define L where "L = fl E"
  define A where "A = fl (L - b)"
  define m where "m = real_of_int (n - 1)"
  define k where "k = real_of_int i"
  define q where "q = A / m"
  define s where "s = fl q"
  define z where "z = s * k"
  define p where "p = fl z"
  define y where "y = fl (b + p)"
  define W where "W = u64 * M"
  define D where "D = E - b"
  have u0: "0 \<le> u64" using u64_pos by simp
  have M0: "0 \<le> M" and bM: "\<bar>b\<bar> \<le> M" and EM: "\<bar>E\<bar> \<le> M"
    by (simp_all add: M_def)
  have W0: "0 \<le> W" using u0 M0 by (simp add: W_def)
  have WM: "W \<le> M"
    using mult_right_mono [OF u64_le_1 M0] by (simp add: W_def)
  have bound: "u64 * v \<le> c * W" if "v \<le> c * M" for v c
  proof -
    have "u64 * v \<le> u64 * (c * M)" using that u0 by (rule mult_left_mono)
    then show ?thesis by (simp add: W_def mult.left_commute)
  qed
  have D0: "0 \<le> D" using space by (simp add: D_def E_def)
  have DM: "D \<le> M" unfolding D_def M_def by linarith
  have m: "0 < m" and km: "k \<le> m" and k0: "0 \<le> k"
    using i by (simp_all add: m_def k_def)
  have r: "r = k / m" by (simp add: r_def k_def m_def)
  have r0: "0 \<le> r" and r1: "r \<le> 1"
    using m km k0 by (simp_all add: r)
  note ah = available_height [OF b space]
  have e0: "\<bar>L - E\<bar> \<le> W"
  proof -
    have "\<bar>L - E\<bar> \<le> u64 * \<bar>E\<bar>" unfolding L_def by (rule fl_rel)
    also have "u64 * \<bar>E\<bar> \<le> 1 * W" using EM by (intro bound) simp
    finally show ?thesis by simp
  qed
  have Lb0: "0 \<le> L - b" using ah(1) by (simp add: L_def E_def)
  have Lb: "L - b \<le> 2 * M" using e0 DM WM by (simp add: D_def abs_le_iff)
  have eA: "\<bar>A - (L - b)\<bar> \<le> 2 * W"
  proof -
    have "\<bar>A - (L - b)\<bar> \<le> u64 * \<bar>L - b\<bar>" unfolding A_def by (rule fl_rel)
    also have "u64 * \<bar>L - b\<bar> \<le> 2 * W" using Lb Lb0 by (intro bound) simp
    finally show ?thesis .
  qed
  have A0: "0 \<le> A" unfolding A_def using Lb0 by (rule fl_nonneg)
  have AM: "A \<le> 4 * M" using eA Lb WM by (simp add: abs_le_iff)
  have AD: "\<bar>A - D\<bar> \<le> 3 * W" using eA e0 by (simp add: D_def abs_le_iff)
  have q0: "0 \<le> q" using A0 m by (simp add: q_def)
  have qk: "q * k = A * r" by (simp add: q_def r)
  have Ar: "A * r \<le> A" using mult_left_mono [OF r1 A0] by simp
  have Ar0: "0 \<le> A * r" using A0 r0 by simp
  have s0: "0 \<le> s" unfolding s_def using q0 by (rule fl_nonneg)
  have ez: "\<bar>z - A * r\<bar> \<le> 4 * W"
  proof -
    have "\<bar>s - q\<bar> \<le> u64 * \<bar>q\<bar>" unfolding s_def by (rule fl_rel)
    then have "\<bar>s - q\<bar> * k \<le> u64 * \<bar>q\<bar> * k" using k0 by (rule mult_right_mono)
    moreover have "\<bar>s - q\<bar> * k = \<bar>z - A * r\<bar>"
    proof -
      have "z - A * r = (s - q) * k" by (simp add: z_def qk [symmetric] left_diff_distrib)
      then have "\<bar>z - A * r\<bar> = \<bar>s - q\<bar> * \<bar>k\<bar>" by (simp only: abs_mult)
      then show ?thesis using k0 by simp
    qed
    moreover have "u64 * \<bar>q\<bar> * k = u64 * (A * r)"
      using q0 by (simp add: qk [symmetric])
    moreover have "u64 * (A * r) \<le> 4 * W" using Ar AM by (intro bound) simp
    ultimately show ?thesis by simp
  qed
  have z0: "0 \<le> z" using s0 k0 by (simp add: z_def)
  have zM: "z \<le> 8 * M" using ez Ar AM WM by (simp add: abs_le_iff)
  have ep: "\<bar>p - z\<bar> \<le> 8 * W"
  proof -
    have "\<bar>p - z\<bar> \<le> u64 * \<bar>z\<bar>" unfolding p_def by (rule fl_rel)
    also have "u64 * \<bar>z\<bar> \<le> 8 * W" using zM z0 by (intro bound) simp
    finally show ?thesis .
  qed
  have p0: "0 \<le> p" unfolding p_def using z0 by (rule fl_nonneg)
  have pM: "p \<le> 16 * M" using ep zM WM by (simp add: abs_le_iff)
  have ey: "\<bar>y - (b + p)\<bar> \<le> 17 * W"
  proof -
    have "\<bar>y - (b + p)\<bar> \<le> u64 * \<bar>b + p\<bar>" unfolding y_def by (rule fl_rel)
    also have "u64 * \<bar>b + p\<bar> \<le> 17 * W" using bM pM p0 by (intro bound) (simp add: abs_le_iff)
    finally show ?thesis .
  qed
  have eD: "\<bar>A * r - D * r\<bar> \<le> 3 * W"
  proof -
    have "A * r - D * r = (A - D) * r" by (simp add: left_diff_distrib)
    then have "\<bar>A * r - D * r\<bar> = \<bar>A - D\<bar> * \<bar>r\<bar>" by (simp only: abs_mult)
    then have "\<bar>A * r - D * r\<bar> = \<bar>A - D\<bar> * r" using r0 by simp
    also have "\<dots> \<le> \<bar>A - D\<bar> * 1" using r1 by (intro mult_left_mono) simp_all
    finally show ?thesis using AD by simp
  qed
  have "\<bar>y - (b + D * r)\<bar> \<le> 32 * W"
    using ey ep ez eD by (simp add: abs_le_iff)
  moreover have "y = evenY b (fl (fl (fl E - b) / real_of_int (n - 1))) i"
    by (simp add: y_def p_def z_def s_def q_def A_def L_def m_def k_def evenY_def)
  ultimately show ?thesis by (simp add: W_def D_def)
qed

lemma evenHeight_mono:
  assumes n: "2 \<le> n" "n \<le> 4294967296" and b: "fl b = b" and space: "t + b \<le> h"
    and ij: "0 \<le> i" "i \<le> j" "j \<le> n - 1"
  shows "evenHeight n h t b i \<le> evenHeight n h t b j"
proof -
  let ?s = "fl (fl (fl (h - t) - b) / real_of_int (n - 1))"
  note ah = available_height [OF b space]
  have between: "b \<le> evenY b ?s k \<and> evenY b ?s k \<le> fl (h - t)" if "1 \<le> k" "k \<le> n - 2" for k
    using evenY_between [OF b space that n(2)] by simp
  have s0: "0 \<le> ?s"
    using ah(2) n(1) by (intro fl_nonneg) simp
  consider (first) "i = 0" | (last) "0 < i" "j = n - 1" | (mid) "0 < i" "j < n - 1"
    using ij by linarith
  then show ?thesis
  proof cases
    case first
    consider "j = 0" | "j = n - 1" | "1 \<le> j" "j \<le> n - 2" using ij by linarith
    then show ?thesis
      using first ah(1) between [of j] by cases (auto simp: evenHeight_def)
  next
    case last
    consider "i = n - 1" | "1 \<le> i" "i \<le> n - 2" using last ij by linarith
    then show ?thesis
      using last between [of i] by cases (auto simp: evenHeight_def)
  next
    case mid
    then have "evenHeight n h t b i = evenY b ?s i" "evenHeight n h t b j = evenY b ?s j"
      using ij by (simp_all add: evenHeight_def)
    with evenY_mono [OF s0 ij(2)] show ?thesis by simp
  qed
qed

lemma even_result:
  assumes n: "2 \<le> n" "n \<le> 4294967296" and b: "fl b = b" and space: "t + b \<le> h"
  shows "calculateHingeYPositions pw n h t b Even = Inr (map (evenHeight n h t b) [0..n - 1])"
    and "sorted (map (evenHeight n h t b) [0..n - 1])"
proof -
  let ?g = "evenHeight n h t b"
  let ?y = "evenY b (fl (fl (fl (h - t) - b) / real_of_int (n - 1)))"
  show srt: "sorted (map ?g [0..n - 1])"
    by (rule sorted_map_upto) (rule evenHeight_mono [OF n b space])
  have mid: "map ?y [1..n - 2] = map ?g [1..n - 2]"
    by (rule map_cong) (auto simp: evenHeight_def)
  have g0: "?g 0 = b" by (simp add: evenHeight_def)
  have gl: "?g (n - 1) = fl (h - t)" using n(1) by (simp add: evenHeight_def)
  have pre: "(if n = 2 then [b, fl (h - t)] else splice_loop ?g 1 (n - 2) [b, fl (h - t)])
      = map ?g [0..n - 1]"
    by (rule positions_closed_form [OF n(1) g0 gl])
  have loop: "splice_loop ?y 1 (n - 2) [b, fl (h - t)] = splice_loop ?g 1 (n - 2) [b, fl (h - t)]"
    by (simp only: splice_loop_pair mid)
  have u: "calculateHingeYPositions pw n h t b Even =
     Inr (if n = 2 then [b, fl (h - t)]
          else sort (splice_loop ?y 1 (n - 2) [b, fl (h - t)]))"
    using calculateHingeYPositions_unfold [OF n(1), of pw h t b Even] by simp
  show "calculateHingeYPositions pw n h t b Even = Inr (map ?g [0..n - 1])"
  proof (cases "n = 2")
    case True
    from pre have "[b, fl (h - t)] = map ?g [0..n - 1]"
      by (simp only: if_P [OF True])
    moreover from u have "calculateHingeYPositions pw n h t b Even = Inr [b, fl (h - t)]"
      by (simp only: if_P [OF True])
    ultimately show ?thesis by (simp only:)
  next
    case False
    from pre have "splice_loop ?y 1 (n - 2) [b, fl (h - t)] = map ?g [0..n - 1]"
      by (simp only: loop if_not_P [OF False])
    moreover from u have "calculateHingeYPositions pw n h t b Even
        = Inr (sort (splice_loop ?y 1 (n - 2) [b, fl (h - t)]))"
      by (simp only: if_not_P [OF False])
    ultimately show ?thesis
      using srt by (simp only: sorted_sort_id)
  qed
qed

lemma evenHeight_error:
  assumes n: "2 \<le> n" and b: "fl b = b" and space: "t + b \<le> h"
    and k: "0 \<le> k" "k \<le> n - 1"
  shows "\<bar>evenHeight n h t b k - (b + (h - t - b) * (real_of_int k / real_of_int (n - 1)))\<bar>
           \<le> 32 * (u64 * (\<bar>b\<bar> + \<bar>h - t\<bar>))"
proof -
  let ?M = "\<bar>b\<bar> + \<bar>h - t\<bar>"
  have W0: "0 \<le> u64 * ?M" using u64_pos by simp
  consider (first) "k = 0" | (last) "k = n - 1" "k \<noteq> 0" | (mid) "1 \<le> k" "k \<le> n - 2"
    using k by linarith
  then show ?thesis
  proof cases
    case first
    then show ?thesis using W0 by (simp add: evenHeight_def)
  next
    case last
    have m: "real_of_int (n - 1) \<noteq> 0" using n by simp
    have "\<bar>fl (h - t) - (h - t)\<bar> \<le> u64 * \<bar>h - t\<bar>" by (rule fl_rel)
    also have "\<dots> \<le> u64 * ?M" using u64_pos by simp
    also have "\<dots> \<le> 32 * (u64 * ?M)" using W0 by simp
    finally show ?thesis using last m by (simp add: evenHeight_def)
  next
    case mid
    from evenY_error [OF b space mid] mid show ?thesis
      by (simp add: evenHeight_def)
  qed
qed

lemma even_spacing:
  assumes n: "2 \<le> n" and b: "fl b = b" and space: "t + b \<le> h" and k: "k + 1 < nat n"
  shows "\<bar>map (evenHeight n h t b) [0..n - 1] ! (k + 1) - map (evenHeight n h t b) [0..n - 1] ! k
            - (h - t - b) / real_of_int (n - 1)\<bar>
           \<le> (\<bar>b\<bar> + \<bar>h - t\<bar>) / 2 ^ 47"
proof -
  let ?g = "evenHeight n h t b" and ?M = "\<bar>b\<bar> + \<bar>h - t\<bar>"
  let ?e = "\<lambda>j. b + (h - t - b) * (real_of_int j / real_of_int (n - 1))"
  have k': "k < nat n" using k by simp
  have e1: "\<bar>?g (int (k + 1)) - ?e (int (k + 1))\<bar> \<le> 32 * (u64 * ?M)"
    by (rule evenHeight_error [OF n b space]) (use k in simp_all)
  have e2: "\<bar>?g (int k) - ?e (int k)\<bar> \<le> 32 * (u64 * ?M)"
    by (rule evenHeight_error [OF n b space]) (use k in simp_all)
  have d: "?e (int (k + 1)) - ?e (int k) = (h - t - b) / real_of_int (n - 1)"
    by (simp add: add_divide_distrib distrib_left)
  have "\<bar>?g (int (k + 1)) - ?g (int k) - (h - t - b) / real_of_int (n - 1)\<bar> \<le> 64 * (u64 * ?M)"
    using e1 e2 unfolding d [symmetric] by (simp add: abs_le_iff)
  moreover have "64 * (u64 * ?M) = ?M / 2 ^ 47" by (simp add: u64_def)
  ultimately show ?thesis
    by (simp only: closed_form_nth [OF k] closed_form_nth [OF k'])
qed

lemma even_ends:
  assumes n: "2 \<le> n"
  shows "length (map (evenHeight n h t b) [0..n - 1]) = nat n"
    and "hd (map (evenHeight n h t b) [0..n - 1]) = b"
    and "last (map (evenHeight n h t b) [0..n - 1]) = fl (h - t)"
proof -
  show "length (map (evenHeight n h t b) [0..n - 1]) = nat n"
    using n by simp
  have g0: "evenHeight n h t b 0 = b" by (simp add: evenHeight_def)
  have gl: "evenHeight n h t b (n - 1) = fl (h - t)" using n by (simp add: evenHeight_def)
  show "hd (map (evenHeight n h t b) [0..n - 1]) = b"
    by (simp add: upto_ends [OF n] g0)
  show "last (map (evenHeight n h t b) [0..n - 1]) = fl (h - t)"
    by (simp add: upto_ends [OF n] gl)
qed


section \<open>Hinge placements: what the loop of \<open>placeHinges\<close> builds\<close>

lemma buildPlacements_position:
  "p \<in> set (buildPlacements input xPos zPos rotation i ys) \<Longrightarrow>
   \<exists>y\<in>set ys. hp_position p =
     (if hingeType input = Butt
      then adjustButtHingePlacement \<lparr>vx = xPos, vy = y, vz = zPos\<rparr> (hingeSide input)
             \<lparr>plateWidth = 45, plateHeight = 75, barrelDiameter = 12\<rparr>
      else if hingeType input = Concealed
      then adjustConcealedHingePlacement \<lparr>vx = xPos, vy = y, vz = zPos\<rparr> (leafThickness input)
             \<lparr>cupDiameter = 35, cupDepth = 12, armLength = 95\<rparr>
      else \<lparr>vx = xPos, vy = y, vz = zPos\<rparr>)"
proof (induction ys arbitrary: i)
  case Nil
  then show ?case by simp
next
  case (Cons y ys)
  from Cons.prems consider
    (here) "hp_position p = hp_position (hd (buildPlacements input xPos zPos rotation i (y # ys)))"
    | (later) "p \<in> set (buildPlacements input xPos zPos rotation (Suc i) ys)"
    by (auto simp: Let_def)
  then show ?case
  proof cases
    case here
    then show ?thesis by (simp add: Let_def)
  next
    case later
    from Cons.IH [OF later] show ?thesis by auto
  qed
qed

lemma placeHinges_cases:
  assumes "placeHinges pow w input = Inr ps"
  shows "(hingeType input = Piano \<and>
          ps = [calculatePianoHingePlacement (doorHeight input) (doorWidth input) (hingeSide input)
                  \<lparr>piano_width = 30, fullHeight = True\<rparr>])
       \<or> (hingeType input \<noteq> Piano \<and>
          (\<exists>ys. ps = buildPlacements input (getHingeXPosition (hingeSide input) (doorWidth input))
                   (getHingeZPosition (hingeType input) (leafThickness input))
                   (getHingeRotation (hingeSide input) (hingeType input)) 0 ys))"
  using assms
  by (auto simp: placeHinges_def Let_def split: ValidationResult.splits if_splits sum.splits)

lemma exampleHingeInput_sel:
  "hingeType (exampleHingeInput t s n) = t"
  "hingeSide (exampleHingeInput t s n) = s"
  "hingeCount (exampleHingeInput t s n) = n"
  "doorHeight (exampleHingeInput t s n) = 2000"
  "doorWidth (exampleHingeInput t s n) = 900"
  "leafThickness (exampleHingeInput t s n) = 40"
  by (simp_all add: exampleHingeInput_def)

lemma example_count_valid: "validateHingeCount 2000 30 2 = Valid"
  by (simp add: validateHingeCount_def Let_def)

lemma example_heights: "calculateHingeYPositions pow 2 2000 150 150 Even = Inr [150, 1850]"
  by (simp add: calculateHingeYPositions_def Let_def fl_numeral)

lemma example_placeHinges:
  "t \<noteq> Piano \<Longrightarrow>
   placeHinges pow (fixedWeight 30) (exampleHingeInput t s 2)
     = Inr (buildPlacements (exampleHingeInput t s 2) (getHingeXPosition s 900)
              (getHingeZPosition t 40) (getHingeRotation s t) 0 [150, 1850])"
  by (simp add: placeHinges_def exampleHingeInput_def fixedWeight_def example_count_valid
      rule_or_def mode_or_def example_heights Let_def)

section \<open>Lock validation, bolts, conflicts: auxiliary facts\<close>

lemma hingeConflictLoop_None:
  "hingeConflictLoop h d hs = None \<longleftrightarrow> (\<forall>hinge\<in>set hs. \<not> \<bar>vy (hp_position hinge) - h\<bar> < d)"
  by (induction hs) (auto simp: Let_def)

lemma hingeConflictLoop_Some:
  "hingeConflictLoop h d hs = Some y \<Longrightarrow> \<exists>hinge\<in>set hs. vy (hp_position hinge) = y \<and> \<bar>y - h\<bar> < d"
  by (induction hs) (auto simp: Let_def split: if_splits)

lemma getMinimumThicknessForLock_table:
  "getMinimumThicknessForLock k = (case k of Cylinder \<Rightarrow> 35 | Mortise \<Rightarrow> 40 | Deadbolt \<Rightarrow> 38 | Smart \<Rightarrow> 40)"
  by (cases k) (simp_all add: getMinimumThicknessForLock_def)

lemma boltLoop_length: "length (boltLoop input ps) = length ps"
  by (induction ps) simp_all

lemma boltLoop_nth: "i < length ps \<Longrightarrow> boltLoop input ps ! i = boltPlacementAt input (ps ! i)"
  by (induction ps arbitrary: i) (auto simp: nth_Cons split: nat.splits)

lemma validateOffsets_fails_iff:
  "validateOffsets h t b n \<noteq> Valid \<longleftrightarrow>
     t < 100 \<or> b < 100 \<or> h - t - b < real_of_int (n - 2) * 150"
  by (simp add: validateOffsets_def Let_def)

lemma distanceTo_along_x:
  "0 \<le> d \<Longrightarrow> distanceTo \<lparr>vx = 0, vy = 0, vz = 0\<rparr> \<lparr>vx = d, vy = 0, vz = 0\<rparr> = d"
  by (simp add: distanceTo_def Let_def)

lemma checkPair_records:
  "checkPair item1 item2 \<noteq> [] \<longleftrightarrow>
     distanceTo (hw_position item1) (hw_position item2) < requiredClearance item1 item2"
  by (simp add: checkPair_def Let_def)

lemma checkPair_severity:
  "c \<in> set (checkPair item1 item2) \<Longrightarrow>
   c_severity c = Error \<longleftrightarrow>
     distanceTo (hw_position item1) (hw_position item2) < requiredClearance item1 item2 * 0.5"
  by (auto simp: checkPair_def Let_def split: if_splits)

text \<open>The nested loops visit every pair of positions \<open>i < j\<close> of the array once.\<close>

lemma innerLoop_set:
  "c \<in> set (innerLoop item1 rest) \<longleftrightarrow> (\<exists>j < length rest. c \<in> set (checkPair item1 (rest ! j)))"
proof (induction rest)
  case Nil
  then show ?case by simp
next
  case (Cons item2 rest)
  have "(\<exists>j < length (item2 # rest). c \<in> set (checkPair item1 ((item2 # rest) ! j)))
      \<longleftrightarrow> c \<in> set (checkPair item1 item2) \<or> (\<exists>j < length rest. c \<in> set (checkPair item1 (rest ! j)))"
    by (simp add: Ex_less_Suc2)
  with Cons.IH show ?case by simp
qed

lemma outerLoop_set:
  "c \<in> set (outerLoop items) \<longleftrightarrow>
     (\<exists>i j. i < j \<and> j < length items \<and> c \<in> set (checkPair (items ! i) (items ! j)))"
proof (induction items)
  case Nil
  then show ?case by simp
next
  case (Cons item1 rest)
  have "(\<exists>i j. i < j \<and> j < length (item1 # rest)
            \<and> c \<in> set (checkPair ((item1 # rest) ! i) ((item1 # rest) ! j)))
      \<longleftrightarrow> (\<exists>j < length rest. c \<in> set (checkPair item1 (rest ! j)))
          \<or> (\<exists>i j. i < j \<and> j < length rest \<and> c \<in> set (checkPair (rest ! i) (rest ! j)))"
    (is "?L \<longleftrightarrow> ?A \<or> ?B")
  proof
    assume ?L
    then obtain i j where ij: "i < j" "j < length (item1 # rest)"
      "c \<in> set (checkPair ((item1 # rest) ! i) ((item1 # rest) ! j))"
      by blast
    from ij(1) obtain j' where j': "j = Suc j'"
      by (cases j) auto
    show "?A \<or> ?B"
    proof (cases i)
      case 0
      with ij j' have "j' < length rest \<and> c \<in> set (checkPair item1 (rest ! j'))"
        by simp
      then show ?thesis by blast
    next
      case (Suc i')
      with ij j' have "i' < j' \<and> j' < length rest \<and> c \<in> set (checkPair (rest ! i') (rest ! j'))"
        by simp
      then show ?thesis by blast
    qed
  next
    assume "?A \<or> ?B"
    then show ?L
    proof
      assume ?A
      then obtain j where "j < length rest" "c \<in> set (checkPair item1 (rest ! j))"
        by blast
      then have "0 < Suc j \<and> Suc j < length (item1 # rest)
          \<and> c \<in> set (checkPair ((item1 # rest) ! 0) ((item1 # rest) ! Suc j))"
        by simp
      then show ?L by blast
    next
      assume ?B
      then obtain i j where "i < j" "j < length rest" "c \<in> set (checkPair (rest ! i) (rest ! j))"
        by blast
      then have "Suc i < Suc j \<and> Suc j < length (item1 # rest)
          \<and> c \<in> set (checkPair ((item1 # rest) ! Suc i) ((item1 # rest) ! Suc j))"
        by simp
      then show ?L by blast
    qed
  qed
  with Cons.IH show ?case
    by (simp add: innerLoop_set)
qed

lemma key_butt_flush:
  "clearanceKey (hingeItem (buttHingeAt 0)) (boltItem (boltAt 150 ''flush'')) = ''butt-flush''"
  by (simp add: clearanceKey_def hingeItem_def boltItem_def buttHingeAt_def boltAt_def
      sortTypes_def typeText_def Let_def)

lemma key_lock_bolt:
  "clearanceKey (lockItem lockAtOrigin) (boltItem (boltAt 200 ''bolt'')) = ''bolt-lock''"
  by (simp add: clearanceKey_def lockItem_def boltItem_def lockAtOrigin_def boltAt_def
      sortTypes_def typeText_def Let_def)

lemma required_butt_flush:
  "requiredClearance (hingeItem (buttHingeAt 0)) (boltItem (boltAt 150 ''flush'')) = 100"
  by (simp add: requiredClearance_def key_butt_flush minClearance_def)

lemma required_lock_bolt:
  "requiredClearance (lockItem lockAtOrigin) (boltItem (boltAt 200 ''bolt'')) = 100"
  by (simp add: requiredClearance_def key_lock_bolt minClearance_def)

section \<open>The claims\<close>

text \<open>
  C1 (as amended).  For every input that \<open>placeHinges\<close> accepts, the X coordinate of every
  returned placement is fixed by hinge type and side: a piano hinge sits exactly on the
  hinge-side edge (0 for left, \<open>doorWidth\<close> for right); a butt hinge is moved off the edge by
  half the 12 mm barrel (\<open>-6\<close> for left, \<open>doorWidth + 6\<close> for right); a concealed hinge is
  moved by the 5 mm edge inset (\<open>5\<close> when the edge is at 0, the edge minus 5 otherwise).
\<close>

theorem hinge_x_by_type:
  assumes "placeHinges pow w input = Inr ps" and "p \<in> set ps"
  shows "vx (hp_position p) =
     (case hingeType input of
        Piano \<Rightarrow> getHingeXPosition (hingeSide input) (doorWidth input)
      | Butt \<Rightarrow> (if hingeSide input = Left then - 6 else doorWidth input + 6)
      | Concealed \<Rightarrow>
          (if getHingeXPosition (hingeSide input) (doorWidth input) = 0 then 5
           else getHingeXPosition (hingeSide input) (doorWidth input) - 5))"
proof -
  from placeHinges_cases [OF assms(1)] show ?thesis
  proof (elim disjE conjE exE)
    assume "hingeType input = Piano"
      and "ps = [calculatePianoHingePlacement (doorHeight input) (doorWidth input)
                   (hingeSide input) \<lparr>piano_width = 30, fullHeight = True\<rparr>]"
    with assms(2) show ?thesis
      by (simp add: calculatePianoHingePlacement_def getHingeXPosition_def Let_def)
  next
    fix ys
    assume np: "hingeType input \<noteq> Piano"
      and ps: "ps = buildPlacements input (getHingeXPosition (hingeSide input) (doorWidth input))
                   (getHingeZPosition (hingeType input) (leafThickness input))
                   (getHingeRotation (hingeSide input) (hingeType input)) 0 ys"
    from buildPlacements_position [OF assms(2) [unfolded ps]] np show ?thesis
      by (cases "hingeType input")
         (auto simp: adjustButtHingePlacement_def adjustConcealedHingePlacement_def
            getHingeXPosition_def Let_def)
  qed
qed

theorem hinge_x_by_type_witness:
  "\<exists>p0 p1. placeHinges roundedPow (fixedWeight 30) (exampleHingeInput Butt Right 2) = Inr [p0, p1]
     \<and> p0 \<in> set [p0, p1] \<and> p1 \<in> set [p0, p1]
     \<and> vx (hp_position p0) = 906 \<and> vx (hp_position p1) = 906"
proof -
  obtain p0 p1 where ps: "placeHinges roundedPow (fixedWeight 30) (exampleHingeInput Butt Right 2) = Inr [p0, p1]"
    by (simp add: example_placeHinges Let_def)
  have "vx (hp_position p0) = 906" "vx (hp_position p1) = 906"
    using hinge_x_by_type [OF ps, of p0] hinge_x_by_type [OF ps, of p1]
    by (simp_all add: exampleHingeInput_sel)
  with ps show ?thesis by simp
qed

theorem hinge_x_pinned_counterexample:
  "hingeSide (exampleHingeInput Butt Left 2) = Left
   \<and> placementXs (placeHinges roundedPow (fixedWeight 30) (exampleHingeInput Butt Left 2)) = [- 6, - 6]
   \<and> placementXs (placeHinges roundedPow (fixedWeight 30) (exampleHingeInput Butt Left 2)) \<noteq> [0, 0]"
  by (simp add: placementXs_def example_placeHinges Let_def adjustButtHingePlacement_def
      getHingeXPosition_def exampleHingeInput_sel)

text \<open>
  C2 (as amended).  For every input with \<open>hingeCount = n\<close>, \<open>2 \<le> n \<le> 2^32\<close>, even
  distribution mode, lengths that are binary64 numbers in range and
  \<open>topOffset + bottomOffset \<le> doorHeight\<close>, the returned heights are an ascending list of
  \<open>n\<close> elements whose first element is \<open>bottomOffset\<close> and whose last element is the
  double \<open>doorHeight - topOffset\<close>, which is the exact difference up to a relative error of
  \<open>2^-53\<close>.  Every consecutive spacing (the exact difference of two neighbours) equals
  \<open>(doorHeight - topOffset - bottomOffset) / (n - 1)\<close> within the tolerance
  \<open>(\<bar>bottomOffset\<bar> + \<bar>doorHeight - topOffset\<bar>) / 2^47\<close>.  In particular
  \<open>hingeCount = 3\<close>, \<open>doorHeight = 2400\<close>, \<open>bottomOffset = 150\<close>, \<open>topOffset = 150\<close> yields
  \<open>[150, 1200, 2250]\<close>.

  The spacings are not equal exactly: four hinges on a 2000 mm door with offsets of 150 mm
  are placed at \<open>150\<close>, \<open>716.6666666666666\<close>, \<open>1283.3333333333333\<close> and \<open>1850\<close>, and the last
  spacing exceeds the first by \<open>2^-43\<close>; none of them is \<open>1700 / 3\<close>.  When the offsets
  cross (\<open>topOffset + bottomOffset > doorHeight\<close>) the sort moves \<open>bottomOffset\<close> away
  from the front of the list.
\<close>

theorem even_distribution:
  "(2 \<le> n \<and> n \<le> 4294967296
      \<and> binary64_length doorHeight' \<and> binary64_length topOffset' \<and> binary64_length bottomOffset'
      \<and> topOffset' + bottomOffset' \<le> doorHeight' \<longrightarrow>
      (\<exists>ys. calculateHingeYPositions pow n doorHeight' topOffset' bottomOffset' Even = Inr ys
         \<and> length ys = nat n
         \<and> sorted ys
         \<and> hd ys = bottomOffset'
         \<and> last ys = fl (doorHeight' - topOffset')
         \<and> \<bar>fl (doorHeight' - topOffset') - (doorHeight' - topOffset')\<bar>
              \<le> \<bar>doorHeight' - topOffset'\<bar> / 2 ^ 53
         \<and> (\<forall>k. k + 1 < nat n \<longrightarrow>
               \<bar>ys ! (k + 1) - ys ! k
                  - (doorHeight' - topOffset' - bottomOffset') / real_of_int (n - 1)\<bar>
                 \<le> (\<bar>bottomOffset'\<bar> + \<bar>doorHeight' - topOffset'\<bar>) / 2 ^ 47)))
   \<and> calculateHingeYPositions pow 3 2400 150 150 Even = Inr [150, 1200, 2250]"
proof -
  have "\<exists>ys. calculateHingeYPositions pow n doorHeight' topOffset' bottomOffset' Even = Inr ys
         \<and> length ys = nat n
         \<and> sorted ys
         \<and> hd ys = bottomOffset'
         \<and> last ys = fl (doorHeight' - topOffset')
         \<and> \<bar>fl (doorHeight' - topOffset') - (doorHeight' - topOffset')\<bar>
              \<le> \<bar>doorHeight' - topOffset'\<bar> / 2 ^ 53
         \<and> (\<forall>k. k + 1 < nat n \<longrightarrow>
               \<bar>ys ! (k + 1) - ys ! k
                  - (doorHeight' - topOffset' - bottomOffset') / real_of_int (n - 1)\<bar>
                 \<le> (\<bar>bottomOffset'\<bar> + \<bar>doorHeight' - topOffset'\<bar>) / 2 ^ 47)"
    if n: "2 \<le> n" "n \<le> 4294967296" and len: "binary64_length bottomOffset'"
      and space: "topOffset' + bottomOffset' \<le> doorHeight'"
  proof -
    let ?ys = "map (evenHeight n doorHeight' topOffset' bottomOffset') [0..n - 1]"
    have b: "fl bottomOffset' = bottomOffset'"
      using len by (simp add: binary64_length_def)
    have rel: "\<bar>fl (doorHeight' - topOffset') - (doorHeight' - topOffset')\<bar>
              \<le> \<bar>doorHeight' - topOffset'\<bar> / 2 ^ 53"
      using fl_rel [of "doorHeight' - topOffset'"] by (simp add: u64_def)
    have sp: "\<forall>k. k + 1 < nat n \<longrightarrow>
               \<bar>?ys ! (k + 1) - ?ys ! k
                  - (doorHeight' - topOffset' - bottomOffset') / real_of_int (n - 1)\<bar>
                 \<le> (\<bar>bottomOffset'\<bar> + \<bar>doorHeight' - topOffset'\<bar>) / 2 ^ 47"
      by (intro allI impI) (rule even_spacing [OF n(1) b space])
    from even_result(1) [OF n b space] even_ends(1) [OF n(1)] even_result(2) [OF n b space]
      even_ends(2) [OF n(1)] even_ends(3) [OF n(1)] rel sp
    show ?thesis
      by (intro exI [of _ ?ys] conjI)
  qed
  moreover have "calculateHingeYPositions pow 3 2400 150 150 Even = Inr [150, 1200, 2250]"
    by (rule scenario_heights)
  ultimately show ?thesis
    by (intro conjI impI) (elim conjE)
qed

theorem even_distribution_witness:
  "(2::int) \<le> 4 \<and> (4::int) \<le> 4294967296
   \<and> binary64_length 2000 \<and> binary64_length 150
   \<and> (150::real) + 150 \<le> 2000
   \<and> (\<exists>ys. calculateHingeYPositions roundedPow 4 2000 150 150 Even = Inr ys
        \<and> length ys = 4 \<and> sorted ys \<and> hd ys = 150 \<and> last ys = 1850
        \<and> \<bar>ys ! 1 - ys ! 0 - 1700 / 3\<bar> \<le> 2000 / 2 ^ 47
        \<and> \<bar>ys ! 2 - ys ! 1 - 1700 / 3\<bar> \<le> 2000 / 2 ^ 47
        \<and> \<bar>ys ! 3 - ys ! 2 - 1700 / 3\<bar> \<le> 2000 / 2 ^ 47)"
proof -
  have d: "binary64_length 2000" "binary64_length 150"
    by (rule binary64_length_numeral, simp)+
  from even_distribution [of 4 2000 150 150 roundedPow] d
  obtain ys where ys: "calculateHingeYPositions roundedPow 4 2000 150 150 Even = Inr ys"
    "length ys = 4" "sorted ys" "hd ys = 150" "last ys = 1850"
    and sp: "\<forall>k. k + 1 < 4 \<longrightarrow> \<bar>ys ! (k + 1) - ys ! k - 1700 / 3\<bar> \<le> 2000 / 2 ^ 47"
    by (auto simp: fl_numeral)
  have step: "\<bar>ys ! (k + 1) - ys ! k - 1700 / 3\<bar> \<le> 2000 / 2 ^ 47" if "k + 1 < 4" for k
    using sp that by blast
  have s0: "\<bar>ys ! 1 - ys ! 0 - 1700 / 3\<bar> \<le> 2000 / 2 ^ 47"
    using step [of 0] by simp
  have "(1::nat) + 1 < 4" by simp
  from step [OF this] have s1: "\<bar>ys ! 2 - ys ! 1 - 1700 / 3\<bar> \<le> 2000 / 2 ^ 47"
    by (simp only: one_add_one)
  have s2: "\<bar>ys ! 3 - ys ! 2 - 1700 / 3\<bar> \<le> 2000 / 2 ^ 47"
    using step [of 2] by simp
  from ys s0 s1 s2 d show ?thesis by simp
qed

theorem even_distribution_counterexample:
  "calculateHingeYPositions roundedPow 4 2000 150 150 Even
     = Inr [150, 6303866665915733 / 2 ^ 43, 5644159689250133 / 2 ^ 42, 1850]
   \<and> 6303866665915733 / 2 ^ 43 - 150 \<noteq> (2000 - 150 - 150) / (3::real)
   \<and> 1850 - 5644159689250133 / 2 ^ 42 \<noteq> 6303866665915733 / 2 ^ 43 - (150::real)
   \<and> calculateHingeYPositions roundedPow 3 200 150 150 Even = Inr [50, 100, 150]
   \<and> hd [50, 100, 150] \<noteq> (150::real)"
  using four_hinge_heights crossing_offsets_heights [of roundedPow] by simp

text \<open>
  C3.  The claim: a conflict is recorded for a pair exactly when its distance is below the
  clearance looked up by the sorted pair of hardware kinds (hinge-bolt 200 mm, lock-bolt
  300 mm, ...).  The detector builds its key from \<open>metadata.type\<close>, which holds the hinge or
  bolt variant, and from the alphabetically sorted pair, so the key is missing from the
  table and the clearance falls back to 100 mm: a butt hinge and a flush bolt 150 mm apart,
  and a lock and a bolt 200 mm apart, are not reported.
\<close>

theorem conflicts_missed:
  "detectHardwareConflicts [buttHingeAt 0] None None (Some [boltAt 150 ''flush'']) = []
   \<and> detectHardwareConflicts [] (Some lockAtOrigin) None (Some [boltAt 200 ''bolt'']) = []"
proof -
  have d1: "distanceTo (hw_position (hingeItem (buttHingeAt 0)))
              (hw_position (boltItem (boltAt 150 ''flush''))) = 150"
    using distanceTo_along_x [of 150]
    by (simp add: hingeItem_def boltItem_def buttHingeAt_def boltAt_def)
  have d2: "distanceTo (hw_position (lockItem lockAtOrigin))
              (hw_position (boltItem (boltAt 200 ''bolt''))) = 200"
    using distanceTo_along_x [of 200]
    by (simp add: lockItem_def boltItem_def lockAtOrigin_def boltAt_def)
  show ?thesis
    by (simp add: detectHardwareConflicts_def checkPair_def d1 d2 required_butt_flush
        required_lock_bolt Let_def)
qed

text \<open>
  C4.  The lock validator fails if and only if the lock height is outside [800, 1200], or the
  edge offset is outside [50, 90], or the leaf is thinner than the minimum of the lock type
  (cylinder 35, mortise 40, deadbolt 38, smart 40), or some hinge is vertically closer than
  150 mm to the lock; each reported failure names a rule that is violated; and a lock at
  height 900 with a hinge at height 1000 fails with the hinge proximity violation.
\<close>

theorem validateLockPlacement_fails_iff:
  "(validateLockPlacement input hinges \<noteq> Valid \<longleftrightarrow>
      (lockHeight input < 800 \<or> lockHeight input > 1200)
      \<or> (edgeOffset input < 50 \<or> edgeOffset input > 90)
      \<or> lk_leafThickness input
           < (case lockType input of Cylinder \<Rightarrow> 35 | Mortise \<Rightarrow> 40 | Deadbolt \<Rightarrow> 38 | Smart \<Rightarrow> 40)
      \<or> (\<exists>hinge\<in>set hinges. \<bar>vy (hp_position hinge) - lockHeight input\<bar> < 150))
   \<and> (validateLockPlacement input hinges = Invalid HeightOutOfRange \<longrightarrow>
        lockHeight input < 800 \<or> lockHeight input > 1200)
   \<and> (validateLockPlacement input hinges = Invalid EdgeOffsetOutOfRange \<longrightarrow>
        edgeOffset input < 50 \<or> edgeOffset input > 90)
   \<and> (\<forall>t k m. validateLockPlacement input hinges = Invalid (ThicknessInsufficient t k m) \<longrightarrow>
        lk_leafThickness input
          < (case lockType input of Cylinder \<Rightarrow> 35 | Mortise \<Rightarrow> 40 | Deadbolt \<Rightarrow> 38 | Smart \<Rightarrow> 40))
   \<and> (\<forall>y. validateLockPlacement input hinges = Invalid (HingeProximityViolation y) \<longrightarrow>
        (\<exists>hinge\<in>set hinges. vy (hp_position hinge) = y \<and> \<bar>y - lockHeight input\<bar> < 150))
   \<and> (lockHeight input = 900 \<and> (\<exists>hinge\<in>set hinges. vy (hp_position hinge) = 1000) \<longrightarrow>
        (\<exists>y. validateLockPlacement input hinges = Invalid (HingeProximityViolation y)))"
proof -
  let ?min = "case lockType input of Cylinder \<Rightarrow> 35 | Mortise \<Rightarrow> 40 | Deadbolt \<Rightarrow> 38 | Smart \<Rightarrow> (40::real)"
  have m: "getMinimumThicknessForLock (lockType input) = ?min"
    by (rule getMinimumThicknessForLock_table)
  show ?thesis
  proof (cases "hingeConflictLoop (lockHeight input) 150 hinges")
    case None
    then have no: "\<forall>hinge\<in>set hinges. \<not> \<bar>vy (hp_position hinge) - lockHeight input\<bar> < 150"
      by (simp add: hingeConflictLoop_None)
    from None no show ?thesis
      unfolding validateLockPlacement_def m Let_def by auto
  next
    case (Some y)
    from hingeConflictLoop_Some [OF Some]
    have ex: "\<exists>hinge\<in>set hinges. vy (hp_position hinge) = y \<and> \<bar>y - lockHeight input\<bar> < 150" .
    then have ex': "\<exists>hinge\<in>set hinges. \<bar>vy (hp_position hinge) - lockHeight input\<bar> < 150"
      by blast
    from Some ex ex' show ?thesis
      unfolding validateLockPlacement_def m Let_def by auto
  qed
qed

theorem validateLockPlacement_fails_iff_witness:
  "lockHeight exampleLockInput = 900
   \<and> (\<exists>hinge\<in>set [buttHingeAt 150, buttHingeAt 1000]. vy (hp_position hinge) = 1000)
   \<and> (\<exists>y. validateLockPlacement exampleLockInput [buttHingeAt 150, buttHingeAt 1000]
             = Invalid (HingeProximityViolation y))
   \<and> validateLockPlacement (exampleLockInput\<lparr>lockHeight := 1050\<rparr>)
       [buttHingeAt 150, buttHingeAt 1850] = Valid"
proof -
  have h: "lockHeight exampleLockInput = 900"
    by (simp add: exampleLockInput_def)
  have e: "\<exists>hinge\<in>set [buttHingeAt 150, buttHingeAt 1000]. vy (hp_position hinge) = 1000"
    by (simp add: buttHingeAt_def)
  from validateLockPlacement_fails_iff [of exampleLockInput "[buttHingeAt 150, buttHingeAt 1000]"] h e
  have f: "\<exists>y. validateLockPlacement exampleLockInput [buttHingeAt 150, buttHingeAt 1000]
             = Invalid (HingeProximityViolation y)"
    by blast
  have "validateLockPlacement (exampleLockInput\<lparr>lockHeight := 1050\<rparr>)
       [buttHingeAt 150, buttHingeAt 1850] = Valid"
    using validateLockPlacement_fails_iff [of "exampleLockInput\<lparr>lockHeight := 1050\<rparr>"
        "[buttHingeAt 150, buttHingeAt 1850]"]
    by (simp add: exampleLockInput_def buttHingeAt_def)
  with h e f show ?thesis by blast
qed

text \<open>
  C5.  When the handle input names a lock (a \<open>lockHeight\<close> that is present and not 0, the
  test the code applies), the placed handle's Y equals the lock placement's Y, whatever handle
  height the input carried, and the handle's X offset from the opening edge is 60 mm;
  without a lock the offset is 70 mm.  For the right edge the offset is taken from
  \<open>doorWidth\<close>.
\<close>

theorem handle_coordination:
  "(truthy (hd_lockHeight input) \<longrightarrow>
      vy (calculateHandlePosition (coordinateHandleWithLock input lock) side) = vy (lp_position lock)
      \<and> vx (calculateHandlePosition (coordinateHandleWithLock input lock) side)
          = (if hd_edge input = Left then 60 else hd_doorWidth input - 60)
      \<and> vx (calculateHandlePosition input side)
          = (if hd_edge input = Left then 60 else hd_doorWidth input - 60))
   \<and> (\<not> truthy (hd_lockHeight input) \<longrightarrow>
      vx (calculateHandlePosition (coordinateHandleWithLock input lock) side)
          = (if hd_edge input = Left then 70 else hd_doorWidth input - 70)
      \<and> vx (calculateHandlePosition input side)
          = (if hd_edge input = Left then 70 else hd_doorWidth input - 70))"
  by (simp add: calculateHandlePosition_def coordinateHandleWithLock_def Let_def)

theorem handle_coordination_witness:
  "truthy (hd_lockHeight (exampleHandleInput (Some 1000)))
   \<and> handleHeight (exampleHandleInput (Some 1000)) = 1050
   \<and> vy (calculateHandlePosition
            (coordinateHandleWithLock (exampleHandleInput (Some 1000)) exampleLock) Exterior) = 1000
   \<and> vx (calculateHandlePosition
            (coordinateHandleWithLock (exampleHandleInput (Some 1000)) exampleLock) Exterior) = 840
   \<and> \<not> truthy (hd_lockHeight (exampleHandleInput None))
   \<and> vx (calculateHandlePosition
            (coordinateHandleWithLock (exampleHandleInput None) exampleLock) Exterior) = 830"
  using handle_coordination [of "exampleHandleInput (Some 1000)" exampleLock Exterior]
        handle_coordination [of "exampleHandleInput None" exampleLock Exterior]
  by (simp add: exampleHandleInput_def exampleLock_def truthy_def)

text \<open>
  C6.  The claim: an input with \<open>topOffset < 100\<close>, \<open>bottomOffset < 100\<close> or too little
  room between the offsets makes the hinge calculator fail.  \<open>validateOffsets\<close> rejects such
  offsets, but \<open>placeHinges\<close> never calls it: with a top offset of 50 mm it returns two
  placements, at heights 150 and 1950.
\<close>

theorem offsets_not_validated:
  "validateOffsets 2000 50 150 2 = Invalid TopOffsetTooSmall
   \<and> placementYs (placeHinges roundedPow (fixedWeight 30) smallTopOffsetInput) = [150, 1950]"
  by (simp add: validateOffsets_def placementYs_def placeHinges_def smallTopOffsetInput_def
      fixedWeight_def validateHingeCount_def rule_or_def mode_or_def
      calculateHingeYPositions_def Let_def adjustButtHingePlacement_def fl_numeral)

text \<open>
  C7 (as amended).  For every accepted input with \<open>hingeType = concealed\<close>, the final Z
  coordinate of each returned placement is \<open>-6\<close>, minus half the 12 mm cup depth, set by the
  concealed-hinge refinement; \<open>-(leafThickness - 10)\<close> is the depth \<open>getHingeZPosition\<close>
  returns before that refinement.
\<close>

theorem concealed_final_z:
  "(placeHinges pow w input = Inr ps \<and> hingeType input = Concealed \<and> p \<in> set ps \<longrightarrow>
      vz (hp_position p) = - 6)
   \<and> getHingeZPosition Concealed t = - (t - 10)"
proof -
  have "vz (hp_position p) = - 6"
    if a: "placeHinges pow w input = Inr ps" and c: "hingeType input = Concealed" and m: "p \<in> set ps"
  proof -
    from placeHinges_cases [OF a] c obtain ys where
      ps: "ps = buildPlacements input (getHingeXPosition (hingeSide input) (doorWidth input))
                   (getHingeZPosition (hingeType input) (leafThickness input))
                   (getHingeRotation (hingeSide input) (hingeType input)) 0 ys"
      by auto
    from buildPlacements_position [OF m [unfolded ps]] c show ?thesis
      by (auto simp: adjustConcealedHingePlacement_def Let_def)
  qed
  then show ?thesis
    by (simp add: getHingeZPosition_def)
qed

theorem concealed_final_z_witness:
  "\<exists>p0 p1. placeHinges roundedPow (fixedWeight 30) (exampleHingeInput Concealed Right 2) = Inr [p0, p1]
     \<and> hingeType (exampleHingeInput Concealed Right 2) = Concealed
     \<and> p0 \<in> set [p0, p1] \<and> p1 \<in> set [p0, p1]
     \<and> vz (hp_position p0) = - 6 \<and> vz (hp_position p1) = - 6"
proof -
  obtain p0 p1 where
    ps: "placeHinges roundedPow (fixedWeight 30) (exampleHingeInput Concealed Right 2) = Inr [p0, p1]"
    by (simp add: example_placeHinges Let_def)
  have c: "hingeType (exampleHingeInput Concealed Right 2) = Concealed"
    by (simp add: exampleHingeInput_sel)
  have "vz (hp_position p0) = - 6" "vz (hp_position p1) = - 6"
    using concealed_final_z [of roundedPow "fixedWeight 30" "exampleHingeInput Concealed Right 2" "[p0, p1]" p0]
      concealed_final_z [of roundedPow "fixedWeight 30" "exampleHingeInput Concealed Right 2" "[p0, p1]" p1]
      ps c
    by simp_all
  with ps c show ?thesis by simp
qed

theorem concealed_final_z_counterexample:
  "hingeType (exampleHingeInput Concealed Left 2) = Concealed
   \<and> - (leafThickness (exampleHingeInput Concealed Left 2) - 10) = - 30
   \<and> placementZs (placeHinges roundedPow (fixedWeight 30) (exampleHingeInput Concealed Left 2)) = [- 6, - 6]"
  by (simp add: placementZs_def example_placeHinges Let_def adjustConcealedHingePlacement_def
      exampleHingeInput_sel)

text \<open>
  C8.  For every accepted bolt input the calculator returns one placement per requested
  position, in order, with Y = \<open>doorHeight - topOffset\<close> for a top bolt and \<open>bottomOffset\<close>
  for a bottom bolt; X = 40 for a left meeting edge and \<open>doorWidth - 40\<close> for a right one;
  Z = \<open>-leafThickness / 2\<close> for flush and automatic bolts and 0 for surface bolts; and a
  rotation about the depth axis of 0 for top and \<open>pi\<close> for bottom flush or automatic bolts,
  and 0 for surface bolts.
\<close>

theorem bolt_positions:
  assumes "validateBoltPlacement input = Valid"
  shows "length (calculateBoltPositions input) = length (positions input)
    \<and> (\<forall>i < length (positions input).
          bm_position (bp_metadata (calculateBoltPositions input ! i)) = positions input ! i
        \<and> vy (bp_position (calculateBoltPositions input ! i))
            = (if positions input ! i = Top then bt_doorHeight input - bt_topOffset input
               else bt_bottomOffset input)
        \<and> vx (bp_position (calculateBoltPositions input ! i))
            = (if meetingEdge input = Left then 40 else bt_doorWidth input - 40)
        \<and> vz (bp_position (calculateBoltPositions input ! i))
            = (if boltType input = Surface then 0 else - bt_leafThickness input / 2)
        \<and> bp_rotation (calculateBoltPositions input ! i)
            = \<lparr>rot_x = 0, rot_y = 0,
               rot_z = (if boltType input = Surface then 0
                        else if positions input ! i = Top then 0 else pi),
               rot_order = ''XYZ''\<rparr>)"
proof -
  have depth: "calculateBoltDepth (boltType input) (bt_leafThickness input)
      = (if boltType input = Surface then 0 else - bt_leafThickness input / 2)"
    by (cases "boltType input") (simp_all add: calculateBoltDepth_def)
  have rot: "calculateBoltRotation p (boltType input)
      = \<lparr>rot_x = 0, rot_y = 0,
         rot_z = (if boltType input = Surface then 0 else if p = Top then 0 else pi),
         rot_order = ''XYZ''\<rparr>" for p
    by (cases "boltType input") (simp_all add: calculateBoltRotation_def)
  show ?thesis
    by (simp add: calculateBoltPositions_def boltLoop_length boltLoop_nth boltPlacementAt_def
        depth rot Let_def)
qed

theorem bolt_positions_witness:
  "validateBoltPlacement exampleBoltInput = Valid
   \<and> length (calculateBoltPositions exampleBoltInput) = 2
   \<and> bp_position (calculateBoltPositions exampleBoltInput ! 0) = \<lparr>vx = 860, vy = 1800, vz = - 20\<rparr>
   \<and> bp_position (calculateBoltPositions exampleBoltInput ! 1) = \<lparr>vx = 860, vy = 200, vz = - 20\<rparr>
   \<and> rot_z (bp_rotation (calculateBoltPositions exampleBoltInput ! 0)) = 0
   \<and> rot_z (bp_rotation (calculateBoltPositions exampleBoltInput ! 1)) = pi"
proof -
  have v: "validateBoltPlacement exampleBoltInput = Valid"
    by (simp add: validateBoltPlacement_def exampleBoltInput_def)
  from bolt_positions [OF v] have
    "length (calculateBoltPositions exampleBoltInput) = 2" and
    "\<forall>i<2. vy (bp_position (calculateBoltPositions exampleBoltInput ! i))
            = (if [Top, Bottom] ! i = Top then 1800 else 200)
        \<and> vx (bp_position (calculateBoltPositions exampleBoltInput ! i)) = 860
        \<and> vz (bp_position (calculateBoltPositions exampleBoltInput ! i)) = - 20
        \<and> rot_z (bp_rotation (calculateBoltPositions exampleBoltInput ! i))
            = (if [Top, Bottom] ! i = Top then 0 else pi)"
    by (simp_all add: exampleBoltInput_def)
  then have "length (calculateBoltPositions exampleBoltInput) = 2"
    and "vy (bp_position (calculateBoltPositions exampleBoltInput ! 0)) = 1800"
    and "vx (bp_position (calculateBoltPositions exampleBoltInput ! 0)) = 860"
    and "vz (bp_position (calculateBoltPositions exampleBoltInput ! 0)) = - 20"
    and "rot_z (bp_rotation (calculateBoltPositions exampleBoltInput ! 0)) = 0"
    and "vy (bp_position (calculateBoltPositions exampleBoltInput ! 1)) = 200"
    and "vx (bp_position (calculateBoltPositions exampleBoltInput ! 1)) = 860"
    and "vz (bp_position (calculateBoltPositions exampleBoltInput ! 1)) = - 20"
    and "rot_z (bp_rotation (calculateBoltPositions exampleBoltInput ! 1)) = pi"
    by simp_all
  with v show ?thesis
    by (simp add: Vector3.equality)
qed

text \<open>
  C9 (as amended).  For every input with \<open>hingeType = piano\<close> that passes the hinge-count
  validation, the hinge calculator returns exactly one placement, positioned at the
  hinge-side edge X, Y = \<open>doorHeight / 2\<close>, Z = 0, carrying \<open>metadata.length = doorHeight\<close>
  and \<open>metadata.isPiano = true\<close>.
\<close>

theorem piano_single_placement:
  assumes "validateHingeCount (doorHeight input) (w input) (hingeCount input) = Valid"
    and "hingeType input = Piano"
  shows "\<exists>p. placeHinges pow w input = Inr [p]
     \<and> vx (hp_position p) = (if hingeSide input = Left then 0 else doorWidth input)
     \<and> vy (hp_position p) = doorHeight input / 2
     \<and> vz (hp_position p) = 0
     \<and> m_length (hp_metadata p) = Some (doorHeight input)
     \<and> m_isPiano (hp_metadata p) = Some True"
  using assms
  by (simp add: placeHinges_def calculatePianoHingePlacement_def Let_def)

theorem piano_single_placement_witness:
  "validateHingeCount (doorHeight (exampleHingeInput Piano Right 2))
       (fixedWeight 30 (exampleHingeInput Piano Right 2))
       (hingeCount (exampleHingeInput Piano Right 2)) = Valid
   \<and> hingeType (exampleHingeInput Piano Right 2) = Piano
   \<and> (\<exists>p. placeHinges roundedPow (fixedWeight 30) (exampleHingeInput Piano Right 2) = Inr [p]
        \<and> hp_position p = \<lparr>vx = 900, vy = 1000, vz = 0\<rparr>
        \<and> m_length (hp_metadata p) = Some 2000)"
proof -
  have v: "validateHingeCount (doorHeight (exampleHingeInput Piano Right 2))
       (fixedWeight 30 (exampleHingeInput Piano Right 2))
       (hingeCount (exampleHingeInput Piano Right 2)) = Valid"
    by (simp add: exampleHingeInput_sel fixedWeight_def example_count_valid)
  have t: "hingeType (exampleHingeInput Piano Right 2) = Piano"
    by (simp add: exampleHingeInput_sel)
  from piano_single_placement [where pow = roundedPow and w = "fixedWeight 30"
      and input = "exampleHingeInput Piano Right 2", OF v t] obtain p where
    "placeHinges roundedPow (fixedWeight 30) (exampleHingeInput Piano Right 2) = Inr [p]"
    "vx (hp_position p) = 900" "vy (hp_position p) = 1000" "vz (hp_position p) = 0"
    "m_length (hp_metadata p) = Some 2000"
    by (auto simp: exampleHingeInput_sel)
  with v t show ?thesis
    by (auto simp: Vector3.equality)
qed

theorem piano_contract_counterexample:
  "placeHinges roundedPow (fixedWeight 30) (exampleHingeInput Piano Left 1)
     = Inl (MinimumHingeCountViolation 2 2000 30)
   \<and> placementIds (placeHinges roundedPow (fixedWeight 30) (exampleHingeInput Piano Left 2)) = [None]"
  by (simp add: placementIds_def placeHinges_def exampleHingeInput_def fixedWeight_def
      validateHingeCount_def Let_def calculatePianoHingePlacement_def)




end
